theory Spec2Isabelle
  imports Complex_Main
begin

section \<open>Python strings\<close>

text \<open>
  A Python \<open>str\<close> is modelled as a \<^typ>\<open>string\<close>: a list of 8-bit characters, read as
  the code points 0 to 255. \<open>py_isspace\<close> is \<open>str.isspace\<close> on these code points, the
  set that \<open>str.strip()\<close> removes at both ends.
\<close>

definition py_isspace :: "char \<Rightarrow> bool" where
  "py_isspace c = (of_char c \<in> {9, 10, 11, 12, 13, 28, 29, 30, 31, 32, 133, 160 :: nat})"

definition lstrip :: "string \<Rightarrow> string" where
  "lstrip s = dropWhile py_isspace s"

definition rstrip :: "string \<Rightarrow> string" where
  "rstrip s = rev (dropWhile py_isspace (rev s))"

definition strip :: "string \<Rightarrow> string" where
  "strip s = rstrip (lstrip s)"

text \<open>\<open>sep.join(xs)\<close>.\<close>

fun join :: "string \<Rightarrow> string list \<Rightarrow> string" where
  "join sep [] = []"
| "join sep [x] = x"
| "join sep (x # y # ys) = x @ sep @ join sep (y # ys)"

text \<open>\<open>t in s\<close> on strings: \<open>t\<close> occurs in \<open>s\<close> as a contiguous substring.\<close>

fun starts_with :: "string \<Rightarrow> string \<Rightarrow> bool" where
  "starts_with [] s = True"
| "starts_with (c # cs) [] = False"
| "starts_with (c # cs) (x # xs) = (c = x \<and> starts_with cs xs)"

fun substr_in :: "string \<Rightarrow> string \<Rightarrow> bool" where
  "substr_in t [] = (t = [])"
| "substr_in t (x # xs) = (starts_with t (x # xs) \<or> substr_in t xs)"

section \<open>Pricing table (pricing\_calculator.py)\<close>

subsection \<open>Python floats\<close>

text \<open>
  A Python \<open>float\<close> is a binary64 number. It is modelled by the rational number it
  denotes, and every arithmetic operation on floats by the exact operation on rationals
  followed by \<open>fl\<close>, the rounding to the nearest number with a significand of 53 bits,
  ties to the even significand. \<open>binade x\<close> is the exponent \<open>e\<close> with
  \<open>2 powi e \<le> x < 2 powi (e + 1)\<close> of a positive \<open>x\<close>, found by halving or doubling.
  The exponent is not bounded: \<open>fl\<close> is the rounding of binary64 for the numbers of
  magnitude between \<open>2 powi - 1022\<close> and \<open>2 powi 1024\<close>, and infinities, subnormal
  numbers and the \<open>OverflowError\<close> of a quotient of integers beyond that range are not
  represented. With the prices of the tables below every intermediate value of the pricing
  stays in that range for token counts of fewer than 300 decimal digits. The two quotients
  that the program never rounds to decimal places, the mean of the nine scores and the
  characters per second, are kept as the exact quotients, of which the program's float is
  the \<open>fl\<close>.
\<close>

definition round_half_even :: "rat \<Rightarrow> int" where
  "round_half_even y =
     (let f = \<lfloor>y\<rfloor>; d = y - of_int f
      in if d < 1 / 2 then f
         else if 1 / 2 < d then f + 1
         else if even f then f else f + 1)"

function binade_up :: "rat \<Rightarrow> int" where
  "binade_up x = (if x < 2 then 0 else binade_up (x / 2) + 1)"
  by pat_completeness auto
termination
proof (relation "measure (\<lambda>x. nat \<lfloor>x\<rfloor>)")
  show "wf (measure (\<lambda>x::rat. nat \<lfloor>x\<rfloor>))" by simp
next
  fix x :: rat
  assume "\<not> x < 2"
  then have "2 \<le> x" by simp
  then have "\<lfloor>x / 2\<rfloor> < \<lfloor>x\<rfloor>" by (simp add: floor_less_iff) linarith
  moreover have "0 < \<lfloor>x\<rfloor>" using \<open>2 \<le> x\<close> by simp
  ultimately show "(x / 2, x) \<in> measure (\<lambda>x. nat \<lfloor>x\<rfloor>)" by simp
qed

function binade_down :: "rat \<Rightarrow> int" where
  "binade_down x = (if x \<le> 0 \<or> 1 \<le> x then 0 else binade_down (x * 2) - 1)"
  by pat_completeness auto
termination
proof (relation "measure (\<lambda>x. nat \<lceil>1 / x\<rceil>)")
  show "wf (measure (\<lambda>x::rat. nat \<lceil>1 / x\<rceil>))" by simp
next
  fix x :: rat
  assume "\<not> (x \<le> 0 \<or> 1 \<le> x)"
  then have x: "0 < x" "x < 1" by simp_all
  then have big: "1 < 1 / x" by simp
  define y where "y = 1 / x"
  have half: "1 / (x * 2) = y / 2" by (simp add: y_def)
  have "\<lceil>y / 2\<rceil> < \<lceil>y\<rceil>"
  proof -
    have up: "y \<le> of_int \<lceil>y\<rceil>" by (rule le_of_int_ceiling)
    have "1 < y" using big by (simp add: y_def)
    then have "2 \<le> \<lceil>y\<rceil>" by linarith
    then have "(2::rat) \<le> of_int \<lceil>y\<rceil>" by (metis of_int_le_iff of_int_numeral)
    with up have "y / 2 \<le> of_int \<lceil>y\<rceil> - 1" by linarith
    then have "y / 2 \<le> of_int (\<lceil>y\<rceil> - 1)" by simp
    then have "\<lceil>y / 2\<rceil> \<le> \<lceil>y\<rceil> - 1" by (simp only: ceiling_le_iff)
    then show ?thesis by simp
  qed
  then have "\<lceil>1 / (x * 2)\<rceil> < \<lceil>1 / x\<rceil>" by (simp only: half) (simp add: y_def)
  moreover have "0 < \<lceil>1 / x\<rceil>" using big by linarith
  ultimately show "(x * 2, x) \<in> measure (\<lambda>x. nat \<lceil>1 / x\<rceil>)" by simp
qed

declare binade_up.simps [simp del] binade_down.simps [simp del]

definition binade :: "rat \<Rightarrow> int" where
  "binade x = (if 1 \<le> x then binade_up x else binade_down x)"

definition fl :: "rat \<Rightarrow> rat" where
  "fl x = (if x = 0 then 0
           else let ulp = 2 powi (binade \<bar>x\<bar> - 52)
                in of_int (round_half_even (x / ulp)) * ulp)"

text \<open>
  \<open>round(x, n)\<close> on a float: the decimal number with \<open>n\<close> places nearest to the exact
  value of \<open>x\<close>, ties to the even last digit, converted back to a float.
\<close>

definition py_round :: "rat \<Rightarrow> nat \<Rightarrow> rat" where
  "py_round x n = fl (of_int (round_half_even (x * 10 ^ n)) / 10 ^ n)"

subsection \<open>The two price tables and the three functions\<close>

text \<open>
  A price written \<open>0.0002500\<close> in the source is the float nearest to that decimal
  number. An identifier that the table lacks gets the integer 0.
\<close>

definition model_input_token_prices :: "(string \<times> rat) list" where
  "model_input_token_prices =
    [(''amazon.titan-text-lite-v1'', fl (3 / 10000)),
     (''amazon.titan-text-express-v1'', fl (75 / 10000)),
     (''ai21.j2-mid-v1'', fl (125 / 10000)),
     (''ai21.j2-ultra-v1'', fl (188 / 10000)),
     (''anthropic.claude-instant-v1'', fl (80 / 100000)),
     (''anthropic.claude-v2'', fl (800 / 100000)),
     (''anthropic.claude-v2:1'', fl (800 / 100000)),
     (''anthropic.claude-3-sonnet-20240229-v1:0'', fl (300 / 100000)),
     (''anthropic.claude-3-haiku-20240307-v1:0'', fl (2500 / 10000000)),
     (''cohere.command-text-v14'', fl (15 / 10000)),
     (''cohere.command-light-text-v14'', fl (3 / 10000)),
     (''meta.llama2-13b-chat-v1'', fl (75 / 100000)),
     (''meta.llama2-70b-chat-v1'', fl (195 / 100000)),
     (''meta.llama3-8b-instruct-v1:0'', fl (4 / 10000)),
     (''meta.llama3-70b-instruct-v1:0'', fl (265 / 100000)),
     (''mistral.mistral-large-2402-v1:0'', fl (8 / 1000)),
     (''mistral.mistral-7b-instruct-v0:2'', fl (15 / 100000)),
     (''mistral.mixtral-8x7b-instruct-v0:1'', fl (45 / 100000)),
     (''gpt-4-0125-preview'', fl (1 / 100)),
     (''gpt-4-32k'', fl (6 / 100))]"

definition model_output_token_prices :: "(string \<times> rat) list" where
  "model_output_token_prices =
    [(''amazon.titan-text-lite-v1'', fl (4 / 10000)),
     (''amazon.titan-text-express-v1'', fl (16 / 10000)),
     (''ai21.j2-mid-v1'', fl (125 / 10000)),
     (''ai21.j2-ultra-v1'', fl (188 / 10000)),
     (''anthropic.claude-instant-v1'', fl (240 / 100000)),
     (''anthropic.claude-v2'', fl (2400 / 100000)),
     (''anthropic.claude-v2:1'', fl (2400 / 100000)),
     (''anthropic.claude-3-sonnet-20240229-v1:0'', fl (1500 / 100000)),
     (''anthropic.claude-3-haiku-20240307-v1:0'', fl (12500 / 10000000)),
     (''cohere.command-text-v14'', fl (200 / 100000)),
     (''cohere.command-light-text-v14'', fl (60 / 100000)),
     (''meta.llama2-13b-chat-v1'', fl (100 / 100000)),
     (''meta.llama2-70b-chat-v1'', fl (256 / 100000)),
     (''meta.llama3-8b-instruct-v1:0'', fl (6 / 10000)),
     (''meta.llama3-70b-instruct-v1:0'', fl (35 / 10000)),
     (''mistral.mistral-large-2402-v1:0'', fl (24 / 1000)),
     (''mistral.mistral-7b-instruct-v0:2'', fl (20 / 100000)),
     (''mistral.mixtral-8x7b-instruct-v0:1'', fl (70 / 100000)),
     (''gpt-4-0125-preview'', fl (3 / 100)),
     (''gpt-4-32k'', fl (12 / 100))]"

definition calculate_input_price :: "int \<Rightarrow> string \<Rightarrow> rat" where
  "calculate_input_price token_number model_id =
     (case map_of model_input_token_prices model_id of
        Some price_per_1000_tokens \<Rightarrow>
          (let cost = fl (fl (of_int token_number / 1000) * price_per_1000_tokens)
           in py_round cost 8)
      | None \<Rightarrow> 0)"

definition calculate_output_price :: "int \<Rightarrow> string \<Rightarrow> rat" where
  "calculate_output_price token_number model_id =
     (case map_of model_output_token_prices model_id of
        Some price_per_1000_tokens \<Rightarrow>
          (let cost = fl (fl (of_int token_number / 1000) * price_per_1000_tokens)
           in py_round cost 8)
      | None \<Rightarrow> 0)"

definition calculate_total_price :: "int \<Rightarrow> int \<Rightarrow> string \<Rightarrow> rat \<times> rat \<times> rat \<times> rat" where
  "calculate_total_price input_tokens output_tokens model =
     (let input_cost = calculate_input_price input_tokens model;
          output_cost = calculate_output_price output_tokens model;
          total_cost = py_round (fl (input_cost + output_cost)) 6;
          total_cost_1000 = py_round (fl (total_cost * 1000)) 6
      in (input_cost, output_cost, total_cost, total_cost_1000))"


section \<open>Tag extraction (evaluation\_steps.py, \<open>parse_xml\<close>)\<close>

subsection \<open>The regular expressions of the \<open>re\<close> module that the program uses\<close>

text \<open>
  \<open>parse_xml\<close> builds two patterns and hands them to \<open>re.findall\<close> and \<open>re.sub\<close>. The
  patterns use literals, the classes \<open>[^c]\<close> and \<open>.\<close> (under \<open>re.DOTALL\<close>), the lazy
  star \<open>*?\<close> on a single character class, alternation, the greedy \<open>+\<close> on a group, and
  the anchors \<open>^\<close> and \<open>$\<close>. They are matched as \<open>re\<close> matches them: by backtracking,
  alternatives left to right, a lazy star trying the rest of the pattern before one more
  character, a greedy repetition trying one more round of its body before the rest.
\<close>

datatype cls = Only char | Except char | AnyChar

fun accepts :: "cls \<Rightarrow> char \<Rightarrow> bool" where
  "accepts (Only c) x = (x = c)"
| "accepts (Except c) x = (x \<noteq> c)"
| "accepts AnyChar x = True"

datatype re = Eps | Sym cls | MinStar cls | Seq re re | Alt re re | MaxPlus re | Bol | Eol

text \<open>
  The matcher works on a stack of what is left to match. \<open>Until r p\<close> stands between two
  rounds of the body of \<open>r+\<close>; \<open>p\<close> is the position where the round just finished had
  started (\<open>None\<close> after the first, mandatory round). A round that ends where it started
  is accepted, but no further round is tried after it.
\<close>

datatype frame = Do re | Until re "nat option"

fun weight :: "re \<Rightarrow> nat" where
  "weight (Seq a b) = weight a + weight b + 3"
| "weight (Alt a b) = weight a + weight b + 3"
| "weight (MaxPlus r) = 2 * weight r + 5"
| "weight _ = 1"

fun frame_weight :: "nat \<Rightarrow> frame \<Rightarrow> nat" where
  "frame_weight n (Do r) = weight r + 1"
| "frame_weight n (Until r p) = (if p = Some n then 1 else weight r + 3)"

text \<open>
  \<open>run k n s\<close>: match the stack \<open>k\<close> against the rest \<open>s\<close> of the input, which starts at
  position \<open>n\<close> of the whole string; the result is the position where the first successful
  match in backtracking order ends, \<open>None\<close> when there is none. \<open>$\<close> (without
  \<open>re.MULTILINE\<close>) holds at the end of the string and before a newline that ends it.
\<close>

function (sequential) run :: "frame list \<Rightarrow> nat \<Rightarrow> string \<Rightarrow> nat option" where
  "run [] n s = Some n"
| "run (Do Eps # k) n s = run k n s"
| "run (Do (Sym c) # k) n [] = None"
| "run (Do (Sym c) # k) n (x # xs) = (if accepts c x then run k (Suc n) xs else None)"
| "run (Do (MinStar c) # k) n s =
     (case run k n s of
        Some e \<Rightarrow> Some e
      | None \<Rightarrow>
          (case s of
             [] \<Rightarrow> None
           | x # xs \<Rightarrow> if accepts c x then run (Do (MinStar c) # k) (Suc n) xs else None))"
| "run (Do (Seq a b) # k) n s = run (Do a # Do b # k) n s"
| "run (Do (Alt a b) # k) n s =
     (case run (Do a # k) n s of Some e \<Rightarrow> Some e | None \<Rightarrow> run (Do b # k) n s)"
| "run (Do (MaxPlus r) # k) n s = run (Do r # Until r None # k) n s"
| "run (Until r p # k) n s =
     (if p \<noteq> Some n
      then (case run (Do r # Until r (Some n) # k) n s of
              Some e \<Rightarrow> Some e
            | None \<Rightarrow> run k n s)
      else run k n s)"
| "run (Do Bol # k) n s = (if n = 0 then run k n s else None)"
| "run (Do Eol # k) n s = (if s = [] \<or> s = [CHR 0x0A] then run k n s else None)"
  by pat_completeness auto
termination
  by (relation "measures [\<lambda>(k, n, s). length s,
                          \<lambda>(k, n, s). sum_list (map (frame_weight n) k)]") auto

text \<open>
  \<open>re.findall(p, s)\<close> for a pattern without groups: the matched substrings, left to right,
  each search resuming where the last match ended. \<open>re.sub(p, '', s)\<close>: the input with
  every such match removed. Both scan from position \<open>n\<close> with rest \<open>s\<close>. The patterns
  of this program start with a literal, so a match is never empty; the branch for an
  empty match moves on by one character.
\<close>

function re_findall :: "re \<Rightarrow> nat \<Rightarrow> string \<Rightarrow> string list" where
  "re_findall p n s =
     (case run [Do p] n s of
        Some e \<Rightarrow>
          if n < e \<and> e \<le> n + length s
          then take (e - n) s # re_findall p e (drop (e - n) s)
          else [] # (case s of [] \<Rightarrow> [] | x # xs \<Rightarrow> re_findall p (Suc n) xs)
      | None \<Rightarrow> (case s of [] \<Rightarrow> [] | x # xs \<Rightarrow> re_findall p (Suc n) xs))"
  by pat_completeness auto
termination
  by (relation "measure (\<lambda>(p, n, s). length s)") auto

function re_sub_empty :: "re \<Rightarrow> nat \<Rightarrow> string \<Rightarrow> string" where
  "re_sub_empty p n s =
     (case run [Do p] n s of
        Some e \<Rightarrow>
          if n < e \<and> e \<le> n + length s
          then re_sub_empty p e (drop (e - n) s)
          else (case s of [] \<Rightarrow> [] | x # xs \<Rightarrow> x # re_sub_empty p (Suc n) xs)
      | None \<Rightarrow> (case s of [] \<Rightarrow> [] | x # xs \<Rightarrow> x # re_sub_empty p (Suc n) xs))"
  by pat_completeness auto
termination
  by (relation "measure (\<lambda>(p, n, s). length s)") auto

subsection \<open>The two patterns\<close>

fun lits :: "string \<Rightarrow> re" where
  "lits [] = Eps"
| "lits (c # cs) = Seq (Sym (Only c)) (lits cs)"

text \<open>\<open><[^/]*?>.*?</[^>]*?>\<close>\<close>

definition nested_alt :: re where
  "nested_alt =
     Seq (Sym (Only CHR ''<'')) (Seq (MinStar (Except CHR ''/'')) (Seq (Sym (Only CHR ''>''))
     (Seq (MinStar AnyChar)
     (Seq (Sym (Only CHR ''<'')) (Seq (Sym (Only CHR ''/'')) (Seq (MinStar (Except CHR ''>''))
     (Sym (Only CHR ''>''))))))))"

text \<open>\<open>[^<]*?\<close>\<close>

definition text_alt :: re where
  "text_alt = MinStar (Except CHR ''<'')"

definition open_tag :: "string \<Rightarrow> string" where
  "open_tag tag = ''<'' @ tag @ ''>''"

definition close_tag :: "string \<Rightarrow> string" where
  "close_tag tag = ''</'' @ tag @ ''>''"

text \<open>\<open>f'<{tag}>(?:<[^/]*?>.*?</[^>]*?>|[^<]*?)+</{tag}>'\<close>\<close>

definition tag_pattern :: "string \<Rightarrow> re" where
  "tag_pattern tag =
     Seq (lits (open_tag tag)) (Seq (MaxPlus (Alt nested_alt text_alt)) (lits (close_tag tag)))"

text \<open>\<open>f'^<{tag}>|</{tag}>$'\<close>\<close>

definition outer_pattern :: "string \<Rightarrow> re" where
  "outer_pattern tag = Alt (Seq Bol (lits (open_tag tag))) (Seq (lits (close_tag tag)) Eol)"



definition parse_xml :: "string \<Rightarrow> string \<Rightarrow> string" where
  "parse_xml xml tag =
     (let matches = re_findall (tag_pattern tag) 0 xml
      in if matches \<noteq> []
         then strip (join '' '' (map (\<lambda>match. re_sub_empty (outer_pattern tag) 0 match) matches))
         else [])"


section \<open>Grading one summary (evaluation\_steps.py)\<close>

subsection \<open>\<open>int(s)\<close> on a string\<close>

text \<open>
  \<open>int\<close> skips white space at both ends (a smaller set than \<open>str.strip\<close>: the
  separators 28 to 31 are not skipped), reads an optional sign and then decimal digits,
  with single underscores allowed between digits. Anything else is a \<open>ValueError\<close>,
  here \<open>None\<close>. The limit on the number of digits of recent interpreters is left out.
\<close>

definition int_isspace :: "char \<Rightarrow> bool" where
  "int_isspace c = (of_char c \<in> {9, 10, 11, 12, 13, 32, 133, 160 :: nat})"

definition is_digit :: "char \<Rightarrow> bool" where
  "is_digit c = (48 \<le> (of_char c :: nat) \<and> (of_char c :: nat) \<le> 57)"

definition digit_val :: "char \<Rightarrow> int" where
  "digit_val c = int (of_char c) - 48"

fun digits :: "int \<Rightarrow> bool \<Rightarrow> string \<Rightarrow> int option" where
  "digits a after_digit [] = (if after_digit then Some a else None)"
| "digits a after_digit (c # cs) =
     (if is_digit c then digits (10 * a + digit_val c) True cs
      else if c = CHR ''_'' \<and> after_digit then digits a False cs
      else None)"

definition py_int :: "string \<Rightarrow> int option" where
  "py_int s =
     (case rev (dropWhile int_isspace (rev (dropWhile int_isspace s))) of
        [] \<Rightarrow> None
      | c # cs \<Rightarrow>
          if c = CHR ''-'' then map_option uminus (digits 0 False cs)
          else if c = CHR ''+'' then digits 0 False cs
          else digits 0 False (c # cs))"

subsection \<open>The outside world\<close>

text \<open>
  The program talks to a PDF library, to the judge model, to the candidate models, to a
  clock and to the file system. Each request is recorded in a trace, in the order it is made, and the world
  answers as a function of the trace up to and including the request, so a world may
  answer the same request differently each time. \<open>completion\<close> is the order in which the
  world serves the nine grading calls of one \<open>asyncio.gather\<close>. \<open>storage\<close> says
  whether writing a file of the report fails. The PDF library is taken as a function from
  the path to the text.
\<close>

datatype error = ClientError | ValueError | ZeroDivisionError | KeyError | OSError

datatype family = Anthropic | Mistral | Meta | Cohere | Amazon | AI21

datatype dimension =
  Accuracy | Completeness | Flow | Structure | Conciseness | Clarity | Objectivity | Tone | Task

text \<open>
  A result row: the dictionary that \<open>OrchestrationHelper.format\<close> returns, one field per
  key. The rows go to the judge in the request for the cost narrative.
\<close>

record run_row =
  Model :: string
  Time_Length :: rat
  Character_Count :: nat
  Char_Process_Time :: rat
  Input_Cost :: rat
  Output_Cost :: rat
  Total_Cost :: rat
  Total_Cost_1000 :: rat
  Summary_Score :: rat
  Invoke_Response :: string

datatype event =
    RubricCall string
  | InvokeCall family string string string string
  | GradeCall dimension string string string
  | TaskGradeCall string string string string string string
  | PerformanceCall "run_row list"
  | WriteCall string

record world =
  text_extraction :: "string \<Rightarrow> string"
  judge :: "event list \<Rightarrow> error + string"
  invoke :: "event list \<Rightarrow> error + string \<times> int \<times> int"
  timer :: "event list \<Rightarrow> rat"
  completion :: "event list \<Rightarrow> dimension list"
  storage :: "event list \<Rightarrow> error option"

subsection \<open>One grading call\<close>

text \<open>
  \<open>model_execution\<close> sends the prompts to the judge and reads the score and the rationale
  out of the reply. The nine \<open>eval_model_*\<close> functions differ in the prompt they build;
  the request records which one it is and what it was given.
\<close>

definition model_execution :: "world \<Rightarrow> event list \<Rightarrow> error + string \<times> string" where
  "model_execution w tr =
     (case judge w tr of
        Inl e \<Rightarrow> Inl e
      | Inr output_text \<Rightarrow>
          Inr (strip (parse_xml output_text ''score''), strip (parse_xml output_text ''thoughts'')))"

definition eval_model ::
  "world \<Rightarrow> dimension \<Rightarrow> string \<Rightarrow> string \<Rightarrow> string \<Rightarrow> event list
     \<Rightarrow> event list \<times> (error + string \<times> string)" where
  "eval_model w d model summary source_text tr =
     (let tr' = tr @ [GradeCall d model summary source_text] in (tr', model_execution w tr'))"

definition eval_model_task ::
  "world \<Rightarrow> string \<Rightarrow> string \<Rightarrow> string \<Rightarrow> string \<Rightarrow> string \<Rightarrow> string \<Rightarrow> event list
     \<Rightarrow> event list \<times> (error + string \<times> string)" where
  "eval_model_task w model summary source_text task evaluation_criteria evaluation_grading tr =
     (let tr' = tr @ [TaskGradeCall model summary source_text task evaluation_criteria
                        evaluation_grading]
      in (tr', model_execution w tr'))"

subsection \<open>\<open>dynamic_grading_criteria\<close>\<close>

definition dynamic_grading_criteria ::
  "world \<Rightarrow> string \<Rightarrow> event list \<Rightarrow> event list \<times> (error + string \<times> string)" where
  "dynamic_grading_criteria w task tr =
     (let tr' = tr @ [RubricCall task]
      in case judge w tr' of
           Inl e \<Rightarrow> (tr', Inl e)
         | Inr response \<Rightarrow>
             (tr', Inr (strip (parse_xml response ''evaluation_criteria''),
                        strip (parse_xml response ''evaluation_grading''))))"

subsection \<open>\<open>evaluate_model_output_orchestrator\<close>\<close>

text \<open>
  \<open>asyncio.gather\<close> runs the nine grading calls concurrently and returns their results
  in the order of its arguments, whatever the order in which they finish; the first
  exception raised by one of them is raised by \<open>gather\<close>. The calls are served in the
  order the world gives (\<open>gather_order\<close> completes any list to an order of all nine),
  each as one step that records the request and takes the reply, and the result of each
  is stored under its own dimension. The trace ends with the request that failed.
\<close>

definition graders :: "dimension list" where
  "graders = [Accuracy, Completeness, Flow, Structure, Conciseness, Clarity, Objectivity,
              Tone, Task]"

definition gather_order :: "dimension list \<Rightarrow> dimension list" where
  "gather_order ds = remdups ds @ filter (\<lambda>d. d \<notin> set ds) graders"

definition grade ::
  "world \<Rightarrow> dimension \<Rightarrow> string \<Rightarrow> string \<Rightarrow> string \<Rightarrow> string \<Rightarrow> string \<Rightarrow> string
     \<Rightarrow> event list \<Rightarrow> event list \<times> (error + string \<times> string)" where
  "grade w d model_name model_summary source_text_data task dynamic_evaluation_criteria scale tr =
     (if d = Task
      then eval_model_task w model_name model_summary source_text_data task
             dynamic_evaluation_criteria scale tr
      else eval_model w d model_name model_summary source_text_data tr)"

fun run_graders ::
  "world \<Rightarrow> string \<Rightarrow> string \<Rightarrow> string \<Rightarrow> string \<Rightarrow> string \<Rightarrow> string \<Rightarrow> dimension list
     \<Rightarrow> event list \<Rightarrow> (dimension \<Rightarrow> string \<times> string)
     \<Rightarrow> event list \<times> (error + (dimension \<Rightarrow> string \<times> string))" where
  "run_graders w model_name model_summary source_text_data task criteria scale [] tr result =
     (tr, Inr result)"
| "run_graders w model_name model_summary source_text_data task criteria scale (d # ds) tr result =
     (case grade w d model_name model_summary source_text_data task criteria scale tr of
        (tr', Inl e) \<Rightarrow> (tr', Inl e)
      | (tr', Inr r) \<Rightarrow>
          run_graders w model_name model_summary source_text_data task criteria scale ds tr'
            (result(d := r)))"

definition gather ::
  "world \<Rightarrow> string \<Rightarrow> string \<Rightarrow> string \<Rightarrow> string \<Rightarrow> string \<Rightarrow> string \<Rightarrow> event list
     \<Rightarrow> event list \<times> (error + (dimension \<Rightarrow> string \<times> string))" where
  "gather w model_name model_summary source_text_data task criteria scale tr =
     run_graders w model_name model_summary source_text_data task criteria scale
       (gather_order (completion w tr)) tr (\<lambda>d. ([], []))"

text \<open>The three values the function builds from the nine results.\<close>

definition final_score_rubric_of ::
  "string \<Rightarrow> (dimension \<Rightarrow> string \<times> string) \<Rightarrow> (string \<times> string) list" where
  "final_score_rubric_of model_name result =
     [(''model_name'', model_name),
      (''model_completeness_score'', fst (result Completeness)),
      (''model_accuracy_score'', fst (result Accuracy)),
      (''model_flow_score'', fst (result Flow)),
      (''model_structure_score'', fst (result Structure)),
      (''model_conciseness_score'', fst (result Conciseness)),
      (''model_clarity_score'', fst (result Clarity)),
      (''model_objectivity_score'', fst (result Objectivity)),
      (''model_tone_score'', fst (result Tone)),
      (''model_task_score'', fst (result Task))]"

definition score_order :: "dimension list" where
  "score_order = [Completeness, Accuracy, Flow, Structure, Conciseness, Clarity, Objectivity,
                  Tone, Task]"

definition final_score_of :: "(dimension \<Rightarrow> string \<times> string) \<Rightarrow> error + rat" where
  "final_score_of result =
     (case those (map (\<lambda>d. py_int (fst (result d))) score_order) of
        None \<Rightarrow> Inl ValueError
      | Some scores \<Rightarrow> Inr (of_int (sum_list scores) / 9))"

definition nl :: string where
  "nl = [CHR 0x0A]"

definition final_summary_of :: "string \<Rightarrow> (dimension \<Rightarrow> string \<times> string) \<Rightarrow> string" where
  "final_summary_of model_summary result =
     (let
          (model_accuracy_score, model_accuracy_summary) = result Accuracy;
          (model_completeness_score, model_completeness_summary) = result Completeness;
          (model_flow_score, model_flow_summary) = result Flow;
          (model_structure_score, model_structure_summary) = result Structure;
          (model_conciseness_score, model_conciseness_summary) = result Conciseness;
          (model_clarity_score, model_clarity_summary) = result Clarity;
          (model_objectivity_score, model_objectivity_summary) = result Objectivity;
          (model_tone_score, model_tone_summary) = result Tone;
          (model_task_score, model_task_summary) = result Task
      in
        nl @
        ''Full Summary:'' @ nl @
        model_summary @ nl @
        replicate 69 CHR ''-'' @ nl @
        nl @
        ''Model Completeness: '' @ nl @
        ''Score: '' @ model_completeness_score @ nl @
        ''Summary: '' @ model_completeness_summary @ nl @
        replicate 69 CHR ''-'' @ nl @
        nl @
        ''Model Accuracy: '' @ nl @
        ''Score: '' @ model_accuracy_score @ nl @
        ''Summary: '' @ model_accuracy_summary @ nl @
        replicate 69 CHR ''-'' @ nl @
        nl @
        ''Model Flow Summary: '' @ nl @
        ''Score: '' @ model_flow_score @ nl @
        ''Summary: '' @ model_flow_summary @ nl @
        replicate 69 CHR ''-'' @ nl @
        nl @
        ''Model Structure: '' @ nl @
        ''Score: '' @ model_structure_score @ nl @
        ''Summary: '' @ model_structure_summary @ nl @
        replicate 69 CHR ''-'' @ nl @
        nl @
        ''Model Conciseness: '' @ nl @
        ''Score: '' @ model_conciseness_score @ nl @
        ''Summary: '' @ model_conciseness_summary @ nl @
        replicate 69 CHR ''-'' @ nl @
        nl @
        ''Model Clarity Summary: '' @ nl @
        ''Score: '' @ model_clarity_score @ nl @
        ''Summary: '' @ model_clarity_summary @ nl @
        replicate 69 CHR ''-'' @ nl @
        nl @
        ''Model Objectivity:'' @ nl @
        ''Score: '' @ model_objectivity_score @ nl @
        ''Summary: '' @ model_objectivity_summary @ nl @
        nl @
        replicate 69 CHR ''-'' @ nl @
        nl @
        ''Model Tone:'' @ nl @
        ''Score: '' @ model_tone_score @ nl @
        ''Summary: '' @ model_tone_summary @ nl @
        replicate 69 CHR ''-'' @ nl @
        nl @
        ''Model Task:'' @ nl @
        ''Score: '' @ model_task_score @ nl @
        ''Summary: '' @ model_task_summary @ nl @
        replicate 156 CHR ''-'' @ nl @
        ''    '')"

definition evaluate_model_output_orchestrator ::
  "world \<Rightarrow> string \<Rightarrow> string \<Rightarrow> string \<Rightarrow> string \<Rightarrow> string \<Rightarrow> string \<Rightarrow> event list
     \<Rightarrow> event list \<times> (error + rat \<times> string \<times> (string \<times> string) list)" where
  "evaluate_model_output_orchestrator w source_text_data model_name model_summary task
       dynamic_evaluation_criteria scale tr =
     (case gather w model_name model_summary source_text_data task dynamic_evaluation_criteria
             scale tr of
        (tr', Inl e) \<Rightarrow> (tr', Inl e)
      | (tr', Inr result) \<Rightarrow>
          (tr', case final_score_of result of
                  Inl e \<Rightarrow> Inl e
                | Inr final_score \<Rightarrow>
                    Inr (final_score, final_summary_of model_summary result,
                         final_score_rubric_of model_name result)))"

section \<open>The result row (orchestration\_helper.py)\<close>

record orchestration_helper =
  self_model :: string
  self_time_length :: rat
  self_character_count :: nat
  self_char_process_time :: rat
  self_input_cost :: rat
  self_output_cost :: rat
  self_total_cost :: rat
  self_total_cost_1000 :: rat
  self_final_score :: rat
  self_summary_invoke_response :: string
  self_final_summary :: string

definition format :: "orchestration_helper \<Rightarrow> run_row" where
  "format self =
     \<lparr>Model = self_model self,
      Time_Length = self_time_length self,
      Character_Count = self_character_count self,
      Char_Process_Time = self_char_process_time self,
      Input_Cost = self_input_cost self,
      Output_Cost = self_output_cost self,
      Total_Cost = self_total_cost self,
      Total_Cost_1000 = self_total_cost_1000 self,
      Summary_Score = self_final_score self,
      Invoke_Response = self_summary_invoke_response self\<rparr>"

definition evaluation_results :: "orchestration_helper \<Rightarrow> string" where
  "evaluation_results self =
     nl @ replicate 20 CHR '' '' @ ''The final summary for '' @ self_model self @ '' is:'' @ nl @
     nl @ replicate 20 CHR '' '' @ self_final_summary self @ nl @
     replicate 20 CHR '' ''"

section \<open>The run over the model list (orchestrator.py, \<open>final_evaluator\<close>)\<close>

text \<open>The three accumulators of the loop.\<close>

record run_state =
  results_list :: "run_row list"
  score_rubric_list :: "(string \<times> string) list list"
  evaluation_results_text :: string

text \<open>What the loop reads and never changes.\<close>

record run_context =
  ctx_input_text_data :: string
  ctx_prompt :: string
  ctx_max_tokens :: string
  ctx_dynamic_evaluation_criteria :: string
  ctx_dynamic_grading_scale :: string

fun family_name :: "family \<Rightarrow> string" where
  "family_name Anthropic = ''anthropic''"
| "family_name Mistral = ''mistral''"
| "family_name Meta = ''meta''"
| "family_name Cohere = ''cohere''"
| "family_name Amazon = ''amazon''"
| "family_name AI21 = ''ai21''"

text \<open>
  The body of one \<open>if "<family>" in model:\<close> block. The six blocks are the same text
  except for the adapter they call. The clock is read before and after the adapter call;
  the division by the rounded duration raises \<open>ZeroDivisionError\<close> when that is zero.
\<close>

definition evaluate_with ::
  "world \<Rightarrow> run_context \<Rightarrow> family \<Rightarrow> string \<Rightarrow> event list \<Rightarrow> run_state
     \<Rightarrow> event list \<times> (error + run_state)" where
  "evaluate_with w ctx fam mdl tr st =
     (let start = timer w tr;
          tr1 = tr @ [InvokeCall fam mdl (ctx_prompt ctx) (ctx_input_text_data ctx) (ctx_max_tokens ctx)]
      in case invoke w tr1 of
           Inl e \<Rightarrow> (tr1, Inl e)
         | Inr (summary_invoke_response, input_token_count, output_token_count) \<Rightarrow>
             (let end = timer w tr1;
                  time_length = py_round (end - start) 2
              in if time_length = 0 then (tr1, Inl ZeroDivisionError)
                 else
                   (let char_process_time = of_nat (length (ctx_input_text_data ctx)) / time_length;
                        (input_cost, output_cost, total_cost, total_cost_1000) =
                           calculate_total_price input_token_count output_token_count mdl
                    in case evaluate_model_output_orchestrator w (ctx_input_text_data ctx) mdl
                              summary_invoke_response (ctx_prompt ctx)
                              (ctx_dynamic_evaluation_criteria ctx) (ctx_dynamic_grading_scale ctx) tr1 of
                         (tr2, Inl e) \<Rightarrow> (tr2, Inl e)
                       | (tr2, Inr (final_score, final_summary, final_score_rubric)) \<Rightarrow>
                           (let result =
                                  \<lparr>self_model = mdl,
                                   self_time_length = time_length,
                                   self_character_count = length (ctx_input_text_data ctx),
                                   self_char_process_time = char_process_time,
                                   self_input_cost = input_cost,
                                   self_output_cost = output_cost,
                                   self_total_cost = total_cost,
                                   self_total_cost_1000 = total_cost_1000,
                                   self_final_score = final_score,
                                   self_summary_invoke_response = summary_invoke_response,
                                   self_final_summary = final_summary\<rparr>
                            in (tr2, Inr
                                  \<lparr>results_list = results_list st @ [format result],
                                   score_rubric_list = score_rubric_list st @ [final_score_rubric],
                                   evaluation_results_text =
                                     evaluation_results_text st @ evaluation_results result\<rparr>)))))"

text \<open>
  The six blocks in the order of the source. They are separate \<open>if\<close> statements, so each
  family whose name occurs in the identifier gets its turn.
\<close>

definition families :: "family list" where
  "families = [Anthropic, Mistral, Meta, Cohere, Amazon, AI21]"

fun family_blocks ::
  "world \<Rightarrow> run_context \<Rightarrow> family list \<Rightarrow> string \<Rightarrow> event list \<Rightarrow> run_state
     \<Rightarrow> event list \<times> (error + run_state)" where
  "family_blocks w ctx [] mdl tr st = (tr, Inr st)"
| "family_blocks w ctx (fam # fams) mdl tr st =
     (if substr_in (family_name fam) mdl
      then (case evaluate_with w ctx fam mdl tr st of
              (tr', Inl e) \<Rightarrow> (tr', Inl e)
            | (tr', Inr st') \<Rightarrow> family_blocks w ctx fams mdl tr' st')
      else family_blocks w ctx fams mdl tr st)"

definition skipped :: "string \<Rightarrow> bool" where
  "skipped mdl = (substr_in ''stability'' mdl \<or> substr_in ''embed'' mdl)"

fun model_loop ::
  "world \<Rightarrow> run_context \<Rightarrow> string list \<Rightarrow> event list \<Rightarrow> run_state
     \<Rightarrow> event list \<times> (error + run_state)" where
  "model_loop w ctx [] tr st = (tr, Inr st)"
| "model_loop w ctx (mdl # models) tr st =
     (if skipped mdl then model_loop w ctx models tr st
      else (case family_blocks w ctx families mdl tr st of
              (tr', Inl e) \<Rightarrow> (tr', Inl e)
            | (tr', Inr st') \<Rightarrow> model_loop w ctx models tr' st'))"

text \<open>
  \<open>final_evaluator\<close> from its first line to the end of the loop (lines 44 to 259): the
  trace of the requests made and either the exception that ended the run or the three
  accumulators as the loop leaves them.
\<close>

definition final_evaluator_loop ::
  "world \<Rightarrow> string \<Rightarrow> string list \<Rightarrow> string \<Rightarrow> string \<Rightarrow> event list \<times> (error + run_state)" where
  "final_evaluator_loop w pdf_path models task_prompt max_tokens =
     (let input_text_data = text_extraction w pdf_path;
          prompt = task_prompt
      in case dynamic_grading_criteria w prompt [] of
           (tr, Inl e) \<Rightarrow> (tr, Inl e)
         | (tr, Inr (dynamic_evaluation_criteria, dynamic_grading_scale)) \<Rightarrow>
             model_loop w
               \<lparr>ctx_input_text_data = input_text_data,
                ctx_prompt = prompt,
                ctx_max_tokens = max_tokens,
                ctx_dynamic_evaluation_criteria = dynamic_evaluation_criteria,
                ctx_dynamic_grading_scale = dynamic_grading_scale\<rparr>
               models tr
               \<lparr>results_list = [], score_rubric_list = [], evaluation_results_text = []\<rparr>)"

text \<open>
  What follows the loop (lines 260 to 294). The two lists become data frames. Selecting
  the columns \<open>Model\<close>, \<open>Time Length\<close>, \<open>Total Cost\<close> and \<open>Summary Score\<close> for printing
  raises \<open>KeyError\<close> when there is no row, since the frame of an empty list has no
  columns. Then the \<open>Total Cost\<close> column is multiplied by 1000, the frame is written to a
  file, the judge is asked for the cost narrative (\<open>evaluate_model_performance\<close>), the
  two charts and the two text reports are written, and the four results are returned.
  Each file written is a request to the world, which may fail it.
\<close>

definition write_file :: "world \<Rightarrow> string \<Rightarrow> event list \<Rightarrow> event list \<times> error option" where
  "write_file w name tr = (let tr' = tr @ [WriteCall name] in (tr', storage w tr'))"

fun write_files :: "world \<Rightarrow> string list \<Rightarrow> event list \<Rightarrow> event list \<times> error option" where
  "write_files w [] tr = (tr, None)"
| "write_files w (name # names) tr =
     (case write_file w name tr of
        (tr', Some e) \<Rightarrow> (tr', Some e)
      | (tr', None) \<Rightarrow> write_files w names tr')"

definition evaluate_model_performance ::
  "world \<Rightarrow> run_row list \<Rightarrow> event list \<Rightarrow> event list \<times> (error + string)" where
  "evaluate_model_performance w rows tr =
     (let tr' = tr @ [PerformanceCall rows] in (tr', judge w tr'))"

record run_report =
  returned_results_df :: "run_row list"
  returned_evaluation_results :: string
  returned_costs_eval_response :: string
  returned_score_rubric_df :: "(string \<times> string) list list"

definition final_evaluator ::
  "world \<Rightarrow> string \<Rightarrow> string list \<Rightarrow> string \<Rightarrow> string \<Rightarrow> event list \<times> (error + run_report)" where
  "final_evaluator w pdf_path models task_prompt max_tokens =
     (case final_evaluator_loop w pdf_path models task_prompt max_tokens of
        (tr, Inl e) \<Rightarrow> (tr, Inl e)
      | (tr, Inr st) \<Rightarrow>
          if results_list st = [] then (tr, Inl KeyError)
          else
            (let results_df =
                   map (\<lambda>row. row\<lparr>Total_Cost := fl (Total_Cost row * 1000)\<rparr>) (results_list st)
             in case write_file w ''reports/model_performance_comparison.csv'' tr of
                  (tr1, Some e) \<Rightarrow> (tr1, Inl e)
                | (tr1, None) \<Rightarrow>
                    (case evaluate_model_performance w results_df tr1 of
                       (tr2, Inl e) \<Rightarrow> (tr2, Inl e)
                     | (tr2, Inr invoke_costs_eval_response) \<Rightarrow>
                         (case write_files w
                                 [''reports/graph.png'', ''reports/rubric_graph.png'',
                                  ''reports/summary-evaluation_results'',
                                  ''reports/cost-evaluation_results''] tr2 of
                            (tr3, Some e) \<Rightarrow> (tr3, Inl e)
                          | (tr3, None) \<Rightarrow>
                              (tr3, Inr
                                 \<lparr>returned_results_df = results_df,
                                  returned_evaluation_results = evaluation_results_text st,
                                  returned_costs_eval_response = invoke_costs_eval_response,
                                  returned_score_rubric_df = score_rubric_list st\<rparr>)))))"

section \<open>Vocabulary for the properties of the pricing\<close>

text \<open>
  \<open>nearest_even y k\<close>: the integer \<open>k\<close> is nearest to \<open>y\<close>, and it is even when \<open>y\<close> lies
  halfway between two integers.
\<close>

definition nearest_even :: "rat \<Rightarrow> int \<Rightarrow> bool" where
  "nearest_even y k =
     (\<bar>of_int k - y\<bar> \<le> 1 / 2 \<and> (\<bar>of_int k - y\<bar> = 1 / 2 \<longrightarrow> even k))"



section \<open>Well-formed input for tag extraction\<close>


datatype piece = Text string | Nested string string string

fun render :: "piece \<Rightarrow> string" where
  "render (Text t) = t"
| "render (Nested a inner b) = ''<'' @ a @ ''>'' @ inner @ ''</'' @ b @ ''>''"









section \<open>Sample worlds\<close>

text \<open>
  A world in which the judge writes a short rubric, gives every summary 5 on the eight
  fixed dimensions and 4 on the task, every candidate model answers, and the clock
  advances by one second per request.
\<close>

definition demo_reply :: "event \<Rightarrow> string" where
  "demo_reply e =
     (case e of
        RubricCall task \<Rightarrow>
          ''<evaluation_criteria>Two sentences?</evaluation_criteria>'' @
          ''<evaluation_grading>5 - exactly two</evaluation_grading>''
      | TaskGradeCall m s src t c g \<Rightarrow> ''<thoughts>no</thoughts><score>4</score>''
      | _ \<Rightarrow> ''<thoughts>ok</thoughts><score>5</score>'')"

definition demo_world :: world where
  "demo_world =
     \<lparr>text_extraction = (\<lambda>path. ''doc''),
      judge = (\<lambda>tr. Inr (demo_reply (last tr))),
      invoke = (\<lambda>tr. Inr (''sum'', 1000, 0)),
      timer = (\<lambda>tr. of_nat (length tr)),
      completion = (\<lambda>tr. [Task, Accuracy]),
      storage = (\<lambda>tr. None)\<rparr>"

definition demo_result :: "dimension \<Rightarrow> string \<times> string" where
  "demo_result d = (if d = Task then (''4'', ''no'') else (''5'', ''ok''))"


text \<open>A world in which the judge never answers in the format it was asked for.\<close>

definition mute_world :: world where
  "mute_world =
     \<lparr>text_extraction = (\<lambda>path. ''doc''),
      judge = (\<lambda>tr. Inr ''I cannot grade this.''),
      invoke = (\<lambda>tr. Inr (''sum'', 1000, 0)),
      timer = (\<lambda>tr. of_nat (length tr)),
      completion = (\<lambda>tr. []),
      storage = (\<lambda>tr. None)\<rparr>"


section \<open>Vocabulary for the properties of the grading fan-out\<close>

text \<open>
  The key of the score map under which a dimension's score is stored, and the request
  that the grading call of a dimension makes.
\<close>

fun score_key :: "dimension \<Rightarrow> string" where
  "score_key Completeness = ''model_completeness_score''"
| "score_key Accuracy = ''model_accuracy_score''"
| "score_key Flow = ''model_flow_score''"
| "score_key Structure = ''model_structure_score''"
| "score_key Conciseness = ''model_conciseness_score''"
| "score_key Clarity = ''model_clarity_score''"
| "score_key Objectivity = ''model_objectivity_score''"
| "score_key Tone = ''model_tone_score''"
| "score_key Task = ''model_task_score''"

definition grade_request ::
  "dimension \<Rightarrow> string \<Rightarrow> string \<Rightarrow> string \<Rightarrow> string \<Rightarrow> string \<Rightarrow> string \<Rightarrow> event" where
  "grade_request d model_name model_summary source_text_data task criteria scale =
     (if d = Task
      then TaskGradeCall model_name model_summary source_text_data task criteria scale
      else GradeCall d model_name model_summary source_text_data)"




section \<open>Vocabulary for the properties of the run\<close>

text \<open>
  The families whose name occurs in an identifier, the request of one adapter call, the
  rounded duration measured around it, the requests that the loop may make with a given
  rubric, the accumulators before the first model, and the model identifiers of the rows
  of an outcome.
\<close>

definition matching_families :: "string \<Rightarrow> family list" where
  "matching_families mdl = filter (\<lambda>fam. substr_in (family_name fam) mdl) families"

definition invoke_request :: "run_context \<Rightarrow> family \<Rightarrow> string \<Rightarrow> event" where
  "invoke_request ctx fam mdl =
     InvokeCall fam mdl (ctx_prompt ctx) (ctx_input_text_data ctx) (ctx_max_tokens ctx)"

definition measured_time :: "world \<Rightarrow> run_context \<Rightarrow> family \<Rightarrow> string \<Rightarrow> event list \<Rightarrow> rat" where
  "measured_time w ctx fam mdl tr =
     py_round (timer w (tr @ [invoke_request ctx fam mdl]) - timer w tr) 2"

fun loop_event :: "run_context \<Rightarrow> event \<Rightarrow> bool" where
  "loop_event ctx (RubricCall task) = False"
| "loop_event ctx (InvokeCall fam mdl p text mt) = True"
| "loop_event ctx (GradeCall d mdl summary text) = True"
| "loop_event ctx (TaskGradeCall mdl summary text task criteria scale) =
     (task = ctx_prompt ctx \<and> criteria = ctx_dynamic_evaluation_criteria ctx \<and>
      scale = ctx_dynamic_grading_scale ctx)"
| "loop_event ctx (PerformanceCall rows) = False"
| "loop_event ctx (WriteCall name) = False"

definition empty_state :: run_state where
  "empty_state = \<lparr>results_list = [], score_rubric_list = [], evaluation_results_text = []\<rparr>"

fun is_rubric_call :: "event \<Rightarrow> bool" where
  "is_rubric_call (RubricCall task) = True"
| "is_rubric_call e = False"

definition rows_of :: "event list \<times> (error + run_state) \<Rightarrow> error + string list" where
  "rows_of outcome = map_sum id (\<lambda>st. map Model (results_list st)) (snd outcome)"

definition rows_for :: "string \<Rightarrow> string list" where
  "rows_for mdl = (if skipped mdl then [] else replicate (length (matching_families mdl)) mdl)"

text \<open>
  The requests of the reporting that follows the loop, and the model identifiers of the
  rows of the table that a run returns.
\<close>

fun is_report_event :: "event \<Rightarrow> bool" where
  "is_report_event (PerformanceCall rows) = True"
| "is_report_event (WriteCall name) = True"
| "is_report_event e = False"

definition returned_rows :: "event list \<times> (error + run_report) \<Rightarrow> error + string list" where
  "returned_rows outcome = map_sum id (\<lambda>rep. map Model (returned_results_df rep)) (snd outcome)"
section \<open>Properties of the pricing table\<close>

subsection \<open>The two roundings\<close>

lemma round_half_even_nearest: "nearest_even y (round_half_even y)"
proof -
  define f where "f = \<lfloor>y\<rfloor>"
  define d where "d = y - of_int f"
  have d0: "0 \<le> d" and d1: "d < 1"
    unfolding d_def f_def by linarith+
  have y: "y = of_int f + d" by (simp add: d_def)
  consider "d < 1 / 2" | "1 / 2 < d" | "d = 1 / 2" by linarith
  then show ?thesis
  proof cases
    case 1
    then have "round_half_even y = f"
      unfolding round_half_even_def Let_def f_def [symmetric] d_def [symmetric] by simp
    moreover have "\<bar>of_int f - y\<bar> < 1 / 2" using 1 d0 by (simp add: y)
    ultimately show ?thesis by (simp add: nearest_even_def)
  next
    case 2
    then have "round_half_even y = f + 1"
      unfolding round_half_even_def Let_def f_def [symmetric] d_def [symmetric] by simp
    moreover have "\<bar>of_int (f + 1) - y\<bar> < 1 / 2" using 2 d1 by (simp add: y)
    ultimately show ?thesis by (simp add: nearest_even_def)
  next
    case 3
    show ?thesis
    proof (cases "even f")
      case True
      then have "round_half_even y = f"
        using 3 unfolding round_half_even_def Let_def f_def [symmetric] d_def [symmetric] by simp
      moreover have "\<bar>of_int f - y\<bar> = 1 / 2" using 3 by (simp add: y)
      ultimately show ?thesis using True by (simp add: nearest_even_def)
    next
      case False
      then have "round_half_even y = f + 1"
        using 3 unfolding round_half_even_def Let_def f_def [symmetric] d_def [symmetric] by simp
      moreover have "\<bar>of_int (f + 1) - y\<bar> = 1 / 2" using 3 by (simp add: y)
      ultimately show ?thesis using False by (simp add: nearest_even_def)
    qed
  qed
qed

lemma nearest_even_unique:
  assumes "nearest_even y k" and "nearest_even y j"
  shows "k = j"
proof (rule ccontr)
  assume ne: "k \<noteq> j"
  from assms have k: "\<bar>of_int k - y\<bar> \<le> 1 / 2" and j: "\<bar>of_int j - y\<bar> \<le> 1 / 2"
    by (simp_all add: nearest_even_def)
  have "\<bar>(of_int k :: rat) - of_int j\<bar> \<le> 1" using k j by linarith
  then have "\<bar>of_int (k - j) :: rat\<bar> \<le> 1" by simp
  then have "\<bar>k - j\<bar> \<le> 1" by (metis of_int_abs of_int_le_iff of_int_1)
  with ne have step: "k = j + 1 \<or> j = k + 1" by linarith
  have tie: "\<bar>of_int k - y\<bar> = 1 / 2 \<and> \<bar>of_int j - y\<bar> = 1 / 2"
  proof -
    from step have "(of_int k :: rat) = of_int j + 1 \<or> (of_int j :: rat) = of_int k + 1"
      by (metis of_int_add of_int_1)
    with k j show ?thesis by linarith
  qed
  with assms have "even k" and "even j" by (simp_all add: nearest_even_def)
  with step show False by auto
qed

lemma round_half_even_eq: "nearest_even y k \<Longrightarrow> round_half_even y = k"
  by (rule nearest_even_unique [OF round_half_even_nearest])

lemma binade_up_bounds:
  "1 \<le> x \<Longrightarrow> 0 \<le> binade_up x \<and> 2 powi binade_up x \<le> x \<and> x < 2 powi (binade_up x + 1)"
proof (induction x rule: binade_up.induct)
  case (1 x)
  show ?case
  proof (cases "x < 2")
    case True
    then have "binade_up x = 0" by (simp add: binade_up.simps)
    with True 1(2) show ?thesis by simp
  next
    case False
    then have e: "binade_up x = binade_up (x / 2) + 1" by (simp add: binade_up.simps)
    from False have "1 \<le> x / 2" by simp
    from 1(1) [OF False this]
    have ih: "0 \<le> binade_up (x / 2)" "2 powi binade_up (x / 2) \<le> x / 2"
      "x / 2 < 2 powi (binade_up (x / 2) + 1)" by simp_all
    have p1: "(2::rat) powi (binade_up (x / 2) + 1) = 2 powi binade_up (x / 2) * 2"
      by (rule power_int_add_1) simp
    have p2: "(2::rat) powi (binade_up (x / 2) + 1 + 1) = 2 powi (binade_up (x / 2) + 1) * 2"
      by (rule power_int_add_1) simp
    from ih show ?thesis unfolding e p2 by (simp add: p1)
  qed
qed

lemma binade_down_bounds:
  "0 < x \<Longrightarrow> x < 1 \<Longrightarrow> 2 powi binade_down x \<le> x \<and> x < 2 powi (binade_down x + 1)"
proof (induction x rule: binade_down.induct)
  case (1 x)
  have e: "binade_down x = binade_down (x * 2) - 1"
    using 1(2,3) by (simp add: binade_down.simps)
  have step: "\<not> (x \<le> 0 \<or> 1 \<le> x)" using 1(2,3) by simp
  have pos: "0 < x * 2" using 1(2) by simp
  have p: "(2::rat) powi binade_down (x * 2) = 2 powi (binade_down (x * 2) - 1) * 2"
    using power_int_add_1 [of "2::rat" "binade_down (x * 2) - 1"] by simp
  show ?case
  proof (cases "x * 2 < 1")
    case True
    from 1(1) [OF step pos True]
    have "2 powi binade_down (x * 2) \<le> x * 2" "x * 2 < 2 powi (binade_down (x * 2) + 1)"
      by simp_all
    moreover have "(2::rat) powi (binade_down (x * 2) + 1) = 2 powi binade_down (x * 2) * 2"
      by (rule power_int_add_1) simp
    ultimately show ?thesis unfolding e by (simp add: p)
  next
    case False
    then have "binade_down (x * 2) = 0" by (simp add: binade_down.simps)
    with False 1(3) show ?thesis unfolding e by (simp add: power_int_minus)
  qed
qed

lemma binade_bounds:
  assumes "0 < x"
  shows "2 powi binade x \<le> x \<and> x < 2 powi (binade x + 1)"
proof (cases "1 \<le> x")
  case True
  with binade_up_bounds [OF True] show ?thesis by (simp add: binade_def)
next
  case False
  then have "x < 1" by simp
  from binade_down_bounds [OF assms this] False show ?thesis by (simp add: binade_def)
qed

lemma binade_eq:
  assumes "2 powi e \<le> x" and "x < 2 powi (e + 1)"
  shows "binade x = e"
proof -
  have "(0::rat) < 2 powi e" by (simp add: zero_less_power_int)
  with assms(1) have pos: "0 < x" by linarith
  from binade_bounds [OF pos]
  have lo: "2 powi binade x \<le> x" and hi: "x < 2 powi (binade x + 1)" by simp_all
  show ?thesis
  proof (rule ccontr)
    assume "binade x \<noteq> e"
    then consider "binade x + 1 \<le> e" | "e + 1 \<le> binade x" by linarith
    then show False
    proof cases
      case 1
      then have "(2::rat) powi (binade x + 1) \<le> 2 powi e" by (rule power_int_increasing) simp
      with hi assms(1) show False by linarith
    next
      case 2
      then have "(2::rat) powi (e + 1) \<le> 2 powi binade x" by (rule power_int_increasing) simp
      with lo assms(2) show False by linarith
    qed
  qed
qed

lemma fl_zero: "fl 0 = 0"
  by (simp add: fl_def)

lemma fl_eq:
  assumes "2 powi e \<le> \<bar>x\<bar>" and "\<bar>x\<bar> < 2 powi (e + 1)"
    and "nearest_even (x / 2 powi (e - 52)) m"
  shows "fl x = of_int m * 2 powi (e - 52)"
proof -
  have "(0::rat) < 2 powi e" by (simp add: zero_less_power_int)
  with assms(1) have "0 < \<bar>x\<bar>" by linarith
  then have "x \<noteq> 0" by simp
  moreover have "binade \<bar>x\<bar> = e" using assms(1,2) by (rule binade_eq)
  ultimately show ?thesis
    by (simp add: fl_def Let_def round_half_even_eq [OF assms(3)])
qed

lemma fl_spec:
  assumes "x \<noteq> 0"
  shows "2 powi binade \<bar>x\<bar> \<le> \<bar>x\<bar> \<and> \<bar>x\<bar> < 2 powi (binade \<bar>x\<bar> + 1)
       \<and> nearest_even (x / 2 powi (binade \<bar>x\<bar> - 52)) (round_half_even (x / 2 powi (binade \<bar>x\<bar> - 52)))
       \<and> fl x = of_int (round_half_even (x / 2 powi (binade \<bar>x\<bar> - 52))) * 2 powi (binade \<bar>x\<bar> - 52)"
proof -
  from assms have "0 < \<bar>x\<bar>" by simp
  from binade_bounds [OF this] round_half_even_nearest assms show ?thesis
    by (simp add: fl_def Let_def)
qed

lemma fl_error:
  "\<bar>fl x - x\<bar> \<le> \<bar>x\<bar> / 2 ^ 53"
proof (cases "x = 0")
  case True
  then show ?thesis by (simp add: fl_zero)
next
  case False
  define e where "e = binade \<bar>x\<bar>"
  define ulp :: rat where "ulp = 2 powi (e - 52)"
  define m where "m = round_half_even (x / ulp)"
  have ulp: "0 < ulp" by (simp add: ulp_def zero_less_power_int)
  from fl_spec [OF False]
  have lo: "2 powi e \<le> \<bar>x\<bar>" and near: "nearest_even (x / ulp) m" and fl: "fl x = of_int m * ulp"
    by (simp_all add: e_def ulp_def m_def)
  from near have "\<bar>of_int m - x / ulp\<bar> \<le> 1 / 2" by (simp add: nearest_even_def)
  then have "\<bar>of_int m - x / ulp\<bar> * ulp \<le> 1 / 2 * ulp"
    using ulp by (simp only: mult_le_cancel_right_pos)
  moreover have "\<bar>of_int m - x / ulp\<bar> * ulp = \<bar>of_int m * ulp - x\<bar>"
  proof -
    have "\<bar>of_int m - x / ulp\<bar> * ulp = \<bar>(of_int m - x / ulp) * ulp\<bar>"
      using ulp by (simp add: abs_mult)
    also have "(of_int m - x / ulp) * ulp = of_int m * ulp - x"
      using ulp by (simp add: field_simps)
    finally show ?thesis .
  qed
  ultimately have err: "\<bar>fl x - x\<bar> \<le> ulp / 2" by (simp add: fl)
  have "ulp = 2 powi e / 2 powi 52"
    unfolding ulp_def by (rule power_int_diff) simp
  then have "ulp = 2 powi e / 2 ^ 52" by simp
  then have "ulp / 2 = 2 powi e / 2 ^ 53" by simp
  also have "\<dots> \<le> \<bar>x\<bar> / 2 ^ 53" using lo by (simp add: divide_right_mono)
  finally show ?thesis using err by linarith
qed

lemma fl_one: "fl 1 = 1"
  using fl_eq [of 0 1 4503599627370496] by (simp add: nearest_even_def)

lemma round_half_even_zero: "round_half_even 0 = 0"
  by (rule round_half_even_eq) (simp add: nearest_even_def)

lemma py_round_zero: "py_round 0 n = 0"
  by (simp add: py_round_def round_half_even_zero fl_zero)

lemma py_round_nearest:
  "nearest_even (x * 10 ^ n) (round_half_even (x * 10 ^ n))
   \<and> py_round x n = fl (of_int (round_half_even (x * 10 ^ n)) / 10 ^ n)"
  by (simp add: py_round_def round_half_even_nearest)

subsection \<open>The price of a call\<close>

lemma price_tables_same_keys:
  "map fst model_output_token_prices = map fst model_input_token_prices"
  by (simp add: model_input_token_prices_def model_output_token_prices_def)

lemma absent_input_rate:
  "m \<notin> set (map fst model_input_token_prices) \<Longrightarrow> map_of model_input_token_prices m = None"
  by (simp add: map_of_eq_None_iff)

lemma absent_output_rate:
  assumes "m \<notin> set (map fst model_input_token_prices)"
  shows "map_of model_output_token_prices m = None"
proof -
  have "m \<notin> set (map fst model_output_token_prices)"
    unfolding price_tables_same_keys by (rule assms)
  then show ?thesis by (simp add: map_of_eq_None_iff)
qed

lemma present_rates:
  assumes "m \<in> set (map fst model_input_token_prices)"
  shows "\<exists>rate_in rate_out. map_of model_input_token_prices m = Some rate_in \<and>
           map_of model_output_token_prices m = Some rate_out"
proof -
  from assms have "map_of model_input_token_prices m \<noteq> None"
    by (simp add: map_of_eq_None_iff)
  moreover from assms have "m \<in> set (map fst model_output_token_prices)"
    by (simp only: price_tables_same_keys)
  then have "map_of model_output_token_prices m \<noteq> None"
    by (simp add: map_of_eq_None_iff)
  ultimately show ?thesis by auto
qed

lemma calculate_input_price_known:
  assumes "map_of model_input_token_prices m = Some rate"
  shows "calculate_input_price tokens m =
           fl (of_int (round_half_even (fl (fl (of_int tokens / 1000) * rate) * 10 ^ 8)) / 10 ^ 8)"
  by (simp add: calculate_input_price_def assms py_round_def)

lemma calculate_output_price_known:
  assumes "map_of model_output_token_prices m = Some rate"
  shows "calculate_output_price tokens m =
           fl (of_int (round_half_even (fl (fl (of_int tokens / 1000) * rate) * 10 ^ 8)) / 10 ^ 8)"
  by (simp add: calculate_output_price_def assms py_round_def)

lemma calculate_total_price_known:
  assumes "map_of model_input_token_prices m = Some rate_in"
    and "map_of model_output_token_prices m = Some rate_out"
  shows "\<exists>k_in k_out k_total k_1000.
           nearest_even (fl (fl (of_int input_tokens / 1000) * rate_in) * 10 ^ 8) k_in
         \<and> nearest_even (fl (fl (of_int output_tokens / 1000) * rate_out) * 10 ^ 8) k_out
         \<and> nearest_even (fl (fl (of_int k_in / 10 ^ 8) + fl (of_int k_out / 10 ^ 8)) * 10 ^ 6) k_total
         \<and> nearest_even (fl (fl (of_int k_total / 10 ^ 6) * 1000) * 10 ^ 6) k_1000
         \<and> calculate_total_price input_tokens output_tokens m =
             (fl (of_int k_in / 10 ^ 8), fl (of_int k_out / 10 ^ 8),
              fl (of_int k_total / 10 ^ 6), fl (of_int k_1000 / 10 ^ 6))"
proof -
  define k_in where "k_in = round_half_even (fl (fl (of_int input_tokens / 1000) * rate_in) * 10 ^ 8)"
  define k_out where
    "k_out = round_half_even (fl (fl (of_int output_tokens / 1000) * rate_out) * 10 ^ 8)"
  define k_total where
    "k_total = round_half_even (fl (fl (of_int k_in / 10 ^ 8) + fl (of_int k_out / 10 ^ 8)) * 10 ^ 6)"
  define k_1000 where
    "k_1000 = round_half_even (fl (fl (of_int k_total / 10 ^ 6) * 1000) * 10 ^ 6)"
  have "nearest_even (fl (fl (of_int input_tokens / 1000) * rate_in) * 10 ^ 8) k_in"
    unfolding k_in_def by (rule round_half_even_nearest)
  moreover have "nearest_even (fl (fl (of_int output_tokens / 1000) * rate_out) * 10 ^ 8) k_out"
    unfolding k_out_def by (rule round_half_even_nearest)
  moreover have "nearest_even (fl (fl (of_int k_in / 10 ^ 8) + fl (of_int k_out / 10 ^ 8)) * 10 ^ 6) k_total"
    unfolding k_total_def by (rule round_half_even_nearest)
  moreover have "nearest_even (fl (fl (of_int k_total / 10 ^ 6) * 1000) * 10 ^ 6) k_1000"
    unfolding k_1000_def by (rule round_half_even_nearest)
  moreover have "calculate_total_price input_tokens output_tokens m =
             (fl (of_int k_in / 10 ^ 8), fl (of_int k_out / 10 ^ 8),
              fl (of_int k_total / 10 ^ 6), fl (of_int k_1000 / 10 ^ 6))"
    unfolding calculate_total_price_def Let_def
      calculate_input_price_known [OF assms(1)] calculate_output_price_known [OF assms(2)]
      py_round_def k_in_def [symmetric] k_out_def [symmetric] k_total_def [symmetric]
      k_1000_def [symmetric]
    by (rule refl)
  ultimately show ?thesis by blast
qed

lemma calculate_total_price_absent:
  assumes "m \<notin> set (map fst model_input_token_prices)"
  shows "calculate_total_price input_tokens output_tokens m = (0, 0, 0, 0)"
  by (simp add: calculate_total_price_def calculate_input_price_def
      calculate_output_price_def Let_def py_round_zero fl_zero absent_input_rate [OF assms]
      absent_output_rate [OF assms])

lemma titan_lite_price:
  "calculate_total_price 1000 0 ''amazon.titan-text-lite-v1'' =
     (fl (3 / 10000), 0, fl (3 / 10000), fl (3 / 10))"
proof -
  have rate_in: "map_of model_input_token_prices ''amazon.titan-text-lite-v1'' = Some (fl (3 / 10000))"
    by (simp add: model_input_token_prices_def)
  have rate_out: "map_of model_output_token_prices ''amazon.titan-text-lite-v1'' = Some (fl (4 / 10000))"
    by (simp add: model_output_token_prices_def)
  have s1: "fl (of_int 1000 / 1000) = 1"
    using fl_eq [of "0" "of_int 1000 / 1000" "4503599627370496"] by (simp add: nearest_even_def)
  have s2: "fl (3 / 10000) = 5534023222112865 / 18446744073709551616"
    using fl_eq [of "(- 12)" "3 / 10000" "5534023222112865"] by (simp add: nearest_even_def)
  have s3: "fl (1 * (5534023222112865 / 18446744073709551616)) = 5534023222112865 / 18446744073709551616"
    using fl_eq [of "(- 12)" "1 * (5534023222112865 / 18446744073709551616)" "5534023222112865"] by (simp add: nearest_even_def)
  have s4: "round_half_even ((5534023222112865 / 18446744073709551616) * 10 ^ 8) = 30000"
    using round_half_even_eq [of "(5534023222112865 / 18446744073709551616) * 10 ^ 8" "30000"] by (simp add: nearest_even_def)
  have s5: "fl (of_int 30000 / 10 ^ 8) = 5534023222112865 / 18446744073709551616"
    using fl_eq [of "(- 12)" "of_int 30000 / 10 ^ 8" "5534023222112865"] by (simp add: nearest_even_def)
  have s6: "fl (of_int 0 / 1000) = 0"
    by (simp add: fl_zero)
  have s7: "fl (4 / 10000) = 7378697629483821 / 18446744073709551616"
    using fl_eq [of "(- 12)" "4 / 10000" "7378697629483821"] by (simp add: nearest_even_def)
  have s8: "fl (0 * (7378697629483821 / 18446744073709551616)) = 0"
    by (simp add: fl_zero)
  have s9: "round_half_even (0 * 10 ^ 8) = 0"
    using round_half_even_eq [of "0 * 10 ^ 8" "0"] by (simp add: nearest_even_def)
  have s10: "fl (of_int 0 / 10 ^ 8) = 0"
    by (simp add: fl_zero)
  have s11: "fl ((5534023222112865 / 18446744073709551616) + 0) = 5534023222112865 / 18446744073709551616"
    using fl_eq [of "(- 12)" "(5534023222112865 / 18446744073709551616) + 0" "5534023222112865"] by (simp add: nearest_even_def)
  have s12: "round_half_even ((5534023222112865 / 18446744073709551616) * 10 ^ 6) = 300"
    using round_half_even_eq [of "(5534023222112865 / 18446744073709551616) * 10 ^ 6" "300"] by (simp add: nearest_even_def)
  have s13: "fl (of_int 300 / 10 ^ 6) = 5534023222112865 / 18446744073709551616"
    using fl_eq [of "(- 12)" "of_int 300 / 10 ^ 6" "5534023222112865"] by (simp add: nearest_even_def)
  have s14: "fl ((5534023222112865 / 18446744073709551616) * 1000) = 5404319552844595 / 18014398509481984"
    using fl_eq [of "(- 2)" "(5534023222112865 / 18446744073709551616) * 1000" "5404319552844595"] by (simp add: nearest_even_def)
  have s15: "round_half_even ((5404319552844595 / 18014398509481984) * 10 ^ 6) = 300000"
    using round_half_even_eq [of "(5404319552844595 / 18014398509481984) * 10 ^ 6" "300000"] by (simp add: nearest_even_def)
  have s16: "fl (of_int 300000 / 10 ^ 6) = 5404319552844595 / 18014398509481984"
    using fl_eq [of "(- 2)" "of_int 300000 / 10 ^ 6" "5404319552844595"] by (simp add: nearest_even_def)
  have l1: "fl (3 / 10000) = 5534023222112865 / 18446744073709551616"
    using fl_eq [of "(- 12)" "3 / 10000" "5534023222112865"] by (simp add: nearest_even_def)
  have l2: "fl (3 / 10000) = 5534023222112865 / 18446744073709551616"
    using fl_eq [of "(- 12)" "3 / 10000" "5534023222112865"] by (simp add: nearest_even_def)
  have l3: "fl (3 / 10) = 5404319552844595 / 18014398509481984"
    using fl_eq [of "(- 2)" "3 / 10" "5404319552844595"] by (simp add: nearest_even_def)
  show ?thesis
    by (simp only: calculate_total_price_def calculate_input_price_def calculate_output_price_def
        py_round_def Let_def rate_in rate_out option.case
        s1 s2 s3 s4 s5 s6 s7 s8 s9 s10 s11 s12 s13 s14 s15 s16
        l1 l2 l3)
qed

lemma claude_haiku_price:
  "calculate_total_price 1000 250 ''anthropic.claude-3-haiku-20240307-v1:0'' =
     (fl (25 / 100000), fl (3125 / 10000000), fl (563 / 1000000), fl (563 / 1000))"
proof -
  have rate_in: "map_of model_input_token_prices ''anthropic.claude-3-haiku-20240307-v1:0'' = Some (fl (2500 / 10000000))"
    by (simp add: model_input_token_prices_def)
  have rate_out: "map_of model_output_token_prices ''anthropic.claude-3-haiku-20240307-v1:0'' = Some (fl (12500 / 10000000))"
    by (simp add: model_output_token_prices_def)
  have s1: "fl (of_int 1000 / 1000) = 1"
    using fl_eq [of "0" "of_int 1000 / 1000" "4503599627370496"] by (simp add: nearest_even_def)
  have s2: "fl (2500 / 10000000) = 1152921504606847 / 4611686018427387904"
    using fl_eq [of "(- 12)" "2500 / 10000000" "4611686018427388"] by (simp add: nearest_even_def)
  have s3: "fl (1 * (1152921504606847 / 4611686018427387904)) = 1152921504606847 / 4611686018427387904"
    using fl_eq [of "(- 12)" "1 * (1152921504606847 / 4611686018427387904)" "4611686018427388"] by (simp add: nearest_even_def)
  have s4: "round_half_even ((1152921504606847 / 4611686018427387904) * 10 ^ 8) = 25000"
    using round_half_even_eq [of "(1152921504606847 / 4611686018427387904) * 10 ^ 8" "25000"] by (simp add: nearest_even_def)
  have s5: "fl (of_int 25000 / 10 ^ 8) = 1152921504606847 / 4611686018427387904"
    using fl_eq [of "(- 12)" "of_int 25000 / 10 ^ 8" "4611686018427388"] by (simp add: nearest_even_def)
  have s6: "fl (of_int 250 / 1000) = 1 / 4"
    using fl_eq [of "(- 2)" "of_int 250 / 1000" "4503599627370496"] by (simp add: nearest_even_def)
  have s7: "fl (12500 / 10000000) = 5764607523034235 / 4611686018427387904"
    using fl_eq [of "(- 10)" "12500 / 10000000" "5764607523034235"] by (simp add: nearest_even_def)
  have s8: "fl ((1 / 4) * (5764607523034235 / 4611686018427387904)) = 5764607523034235 / 18446744073709551616"
    using fl_eq [of "(- 12)" "(1 / 4) * (5764607523034235 / 4611686018427387904)" "5764607523034235"] by (simp add: nearest_even_def)
  have s9: "round_half_even ((5764607523034235 / 18446744073709551616) * 10 ^ 8) = 31250"
    using round_half_even_eq [of "(5764607523034235 / 18446744073709551616) * 10 ^ 8" "31250"] by (simp add: nearest_even_def)
  have s10: "fl (of_int 31250 / 10 ^ 8) = 5764607523034235 / 18446744073709551616"
    using fl_eq [of "(- 12)" "of_int 31250 / 10 ^ 8" "5764607523034235"] by (simp add: nearest_even_def)
  have s11: "fl ((1152921504606847 / 4611686018427387904) + (5764607523034235 / 18446744073709551616)) = 1297036692682703 / 2305843009213693952"
    using fl_eq [of "(- 11)" "(1152921504606847 / 4611686018427387904) + (5764607523034235 / 18446744073709551616)" "5188146770730812"] by (simp add: nearest_even_def)
  have s12: "round_half_even ((1297036692682703 / 2305843009213693952) * 10 ^ 6) = 563"
    using round_half_even_eq [of "(1297036692682703 / 2305843009213693952) * 10 ^ 6" "563"] by (simp add: nearest_even_def)
  have s13: "fl (of_int 563 / 10 ^ 6) = 5192758456749239 / 9223372036854775808"
    using fl_eq [of "(- 11)" "of_int 563 / 10 ^ 6" "5192758456749239"] by (simp add: nearest_even_def)
  have s14: "fl ((5192758456749239 / 9223372036854775808) * 1000) = 5071053180419179 / 9007199254740992"
    using fl_eq [of "(- 1)" "(5192758456749239 / 9223372036854775808) * 1000" "5071053180419179"] by (simp add: nearest_even_def)
  have s15: "round_half_even ((5071053180419179 / 9007199254740992) * 10 ^ 6) = 563000"
    using round_half_even_eq [of "(5071053180419179 / 9007199254740992) * 10 ^ 6" "563000"] by (simp add: nearest_even_def)
  have s16: "fl (of_int 563000 / 10 ^ 6) = 2535526590209589 / 4503599627370496"
    using fl_eq [of "(- 1)" "of_int 563000 / 10 ^ 6" "5071053180419178"] by (simp add: nearest_even_def)
  have l1: "fl (25 / 100000) = 1152921504606847 / 4611686018427387904"
    using fl_eq [of "(- 12)" "25 / 100000" "4611686018427388"] by (simp add: nearest_even_def)
  have l2: "fl (3125 / 10000000) = 5764607523034235 / 18446744073709551616"
    using fl_eq [of "(- 12)" "3125 / 10000000" "5764607523034235"] by (simp add: nearest_even_def)
  have l3: "fl (563 / 1000000) = 5192758456749239 / 9223372036854775808"
    using fl_eq [of "(- 11)" "563 / 1000000" "5192758456749239"] by (simp add: nearest_even_def)
  have l4: "fl (563 / 1000) = 2535526590209589 / 4503599627370496"
    using fl_eq [of "(- 1)" "563 / 1000" "5071053180419178"] by (simp add: nearest_even_def)
  show ?thesis
    by (simp only: calculate_total_price_def calculate_input_price_def calculate_output_price_def
        py_round_def Let_def rate_in rate_out option.case
        s1 s2 s3 s4 s5 s6 s7 s8 s9 s10 s11 s12 s13 s14 s15 s16
        l1 l2 l3 l4)
qed

lemma jurassic_mid_price:
  "calculate_total_price 1 0 ''ai21.j2-mid-v1'' =
     (fl (125 / 10000000), 0, fl (13 / 1000000), fl (13 / 1000))"
proof -
  have rate_in: "map_of model_input_token_prices ''ai21.j2-mid-v1'' = Some (fl (125 / 10000))"
    by (simp add: model_input_token_prices_def)
  have rate_out: "map_of model_output_token_prices ''ai21.j2-mid-v1'' = Some (fl (125 / 10000))"
    by (simp add: model_output_token_prices_def)
  have s1: "fl (of_int 1 / 1000) = 1152921504606847 / 1152921504606846976"
    using fl_eq [of "(- 10)" "of_int 1 / 1000" "4611686018427388"] by (simp add: nearest_even_def)
  have s2: "fl (125 / 10000) = 3602879701896397 / 288230376151711744"
    using fl_eq [of "(- 7)" "125 / 10000" "7205759403792794"] by (simp add: nearest_even_def)
  have s3: "fl ((1152921504606847 / 1152921504606846976) * (3602879701896397 / 288230376151711744)) = 7378697629483821 / 590295810358705651712"
    using fl_eq [of "(- 17)" "(1152921504606847 / 1152921504606846976) * (3602879701896397 / 288230376151711744)" "7378697629483821"] by (simp add: nearest_even_def)
  have s4: "round_half_even ((7378697629483821 / 590295810358705651712) * 10 ^ 8) = 1250"
    using round_half_even_eq [of "(7378697629483821 / 590295810358705651712) * 10 ^ 8" "1250"] by (simp add: nearest_even_def)
  have s5: "fl (of_int 1250 / 10 ^ 8) = 7378697629483821 / 590295810358705651712"
    using fl_eq [of "(- 17)" "of_int 1250 / 10 ^ 8" "7378697629483821"] by (simp add: nearest_even_def)
  have s6: "fl (of_int 0 / 1000) = 0"
    by (simp add: fl_zero)
  have s7: "fl (125 / 10000) = 3602879701896397 / 288230376151711744"
    using fl_eq [of "(- 7)" "125 / 10000" "7205759403792794"] by (simp add: nearest_even_def)
  have s8: "fl (0 * (3602879701896397 / 288230376151711744)) = 0"
    by (simp add: fl_zero)
  have s9: "round_half_even (0 * 10 ^ 8) = 0"
    using round_half_even_eq [of "0 * 10 ^ 8" "0"] by (simp add: nearest_even_def)
  have s10: "fl (of_int 0 / 10 ^ 8) = 0"
    by (simp add: fl_zero)
  have s11: "fl ((7378697629483821 / 590295810358705651712) + 0) = 7378697629483821 / 590295810358705651712"
    using fl_eq [of "(- 17)" "(7378697629483821 / 590295810358705651712) + 0" "7378697629483821"] by (simp add: nearest_even_def)
  have s12: "round_half_even ((7378697629483821 / 590295810358705651712) * 10 ^ 6) = 13"
    using round_half_even_eq [of "(7378697629483821 / 590295810358705651712) * 10 ^ 6" "13"] by (simp add: nearest_even_def)
  have s13: "fl (of_int 13 / 10 ^ 6) = 7673845534663173 / 590295810358705651712"
    using fl_eq [of "(- 17)" "of_int 13 / 10 ^ 6" "7673845534663173"] by (simp add: nearest_even_def)
  have s14: "fl ((7673845534663173 / 590295810358705651712) * 1000) = 7493989779944505 / 576460752303423488"
    using fl_eq [of "(- 7)" "(7673845534663173 / 590295810358705651712) * 1000" "7493989779944505"] by (simp add: nearest_even_def)
  have s15: "round_half_even ((7493989779944505 / 576460752303423488) * 10 ^ 6) = 13000"
    using round_half_even_eq [of "(7493989779944505 / 576460752303423488) * 10 ^ 6" "13000"] by (simp add: nearest_even_def)
  have s16: "fl (of_int 13000 / 10 ^ 6) = 7493989779944505 / 576460752303423488"
    using fl_eq [of "(- 7)" "of_int 13000 / 10 ^ 6" "7493989779944505"] by (simp add: nearest_even_def)
  have l1: "fl (125 / 10000000) = 7378697629483821 / 590295810358705651712"
    using fl_eq [of "(- 17)" "125 / 10000000" "7378697629483821"] by (simp add: nearest_even_def)
  have l2: "fl (13 / 1000000) = 7673845534663173 / 590295810358705651712"
    using fl_eq [of "(- 17)" "13 / 1000000" "7673845534663173"] by (simp add: nearest_even_def)
  have l3: "fl (13 / 1000) = 7493989779944505 / 576460752303423488"
    using fl_eq [of "(- 7)" "13 / 1000" "7493989779944505"] by (simp add: nearest_even_def)
  show ?thesis
    by (simp only: calculate_total_price_def calculate_input_price_def calculate_output_price_def
        py_round_def Let_def rate_in rate_out option.case
        s1 s2 s3 s4 s5 s6 s7 s8 s9 s10 s11 s12 s13 s14 s15 s16
        l1 l2 l3)
qed

text \<open>
  C2. For all token counts and every model identifier of the tables,
  \<open>calculate_total_price\<close> returns the input cost \<open>input_tokens / 1000 * rate\<close> and the
  output cost \<open>output_tokens / 1000 * rate\<close>, each rounded to 8 places, their sum rounded
  to 6 places, and that total times 1000 rounded to 6 places. Every operation is the one
  of binary64 floats, and rounding to \<open>n\<close> places gives the float of \<open>k / 10 ^ n\<close> for the
  integer \<open>k\<close> nearest to \<open>10 ^ n\<close> times the exact value of the float that is rounded,
  the even one of two equally near. An identifier absent from the input table is absent
  from the output table too, nothing is raised for it, and all four costs are 0; an
  identifier in the input table has a rate in both. \<open>fl\<close> is rounding to the nearest
  number with a significand of 53 bits, ties to the even significand. For 1000 input
  tokens and no output tokens on \<open>amazon.titan-text-lite-v1\<close> the result is
  \<open>(0.0003, 0, 0.0003, 0.3)\<close>; for 1000 input and 250 output tokens on
  \<open>anthropic.claude-3-haiku-20240307-v1:0\<close> it is \<open>(0.00025, 0.0003125, 0.000563, 0.563)\<close>,
  where the sum of the two costs is a float just above \<open>0.0005625\<close>; for one input token
  on \<open>ai21.j2-mid-v1\<close> it is \<open>(1.25e-05, 0, 1.3e-05, 0.013)\<close>, where the input cost is a
  float just above \<open>0.0000125\<close>.
\<close>

theorem calculate_total_price_formula:
  "(\<forall>rate_in rate_out.
      map_of model_input_token_prices m = Some rate_in \<longrightarrow>
      map_of model_output_token_prices m = Some rate_out \<longrightarrow>
      (\<exists>k_in k_out k_total k_1000.
           nearest_even (fl (fl (of_int input_tokens / 1000) * rate_in) * 10 ^ 8) k_in
         \<and> nearest_even (fl (fl (of_int output_tokens / 1000) * rate_out) * 10 ^ 8) k_out
         \<and> nearest_even (fl (fl (of_int k_in / 10 ^ 8) + fl (of_int k_out / 10 ^ 8)) * 10 ^ 6) k_total
         \<and> nearest_even (fl (fl (of_int k_total / 10 ^ 6) * 1000) * 10 ^ 6) k_1000
         \<and> calculate_total_price input_tokens output_tokens m =
             (fl (of_int k_in / 10 ^ 8), fl (of_int k_out / 10 ^ 8),
              fl (of_int k_total / 10 ^ 6), fl (of_int k_1000 / 10 ^ 6))))
   \<and> (m \<notin> set (map fst model_input_token_prices) \<longrightarrow>
        map_of model_input_token_prices m = None \<and> map_of model_output_token_prices m = None \<and>
        calculate_total_price input_tokens output_tokens m = (0, 0, 0, 0))
   \<and> (m \<in> set (map fst model_input_token_prices) \<longrightarrow>
        (\<exists>rate_in rate_out. map_of model_input_token_prices m = Some rate_in \<and>
           map_of model_output_token_prices m = Some rate_out))
   \<and> fl 0 = 0
   \<and> (x \<noteq> 0 \<longrightarrow>
        (\<exists>e k. 2 powi e \<le> \<bar>x\<bar> \<and> \<bar>x\<bar> < 2 powi (e + 1) \<and>
           nearest_even (x / 2 powi (e - 52)) k \<and> fl x = of_int k * 2 powi (e - 52)))
   \<and> calculate_total_price 1000 0 ''amazon.titan-text-lite-v1'' =
        (fl (3 / 10000), 0, fl (3 / 10000), fl (3 / 10))
   \<and> calculate_total_price 1000 250 ''anthropic.claude-3-haiku-20240307-v1:0'' =
        (fl (25 / 100000), fl (3125 / 10000000), fl (563 / 1000000), fl (563 / 1000))
   \<and> calculate_total_price 1 0 ''ai21.j2-mid-v1'' =
        (fl (125 / 10000000), 0, fl (13 / 1000000), fl (13 / 1000))"
proof (intro conjI impI allI)
  fix rate_in rate_out
  assume "map_of model_input_token_prices m = Some rate_in"
    and "map_of model_output_token_prices m = Some rate_out"
  then show "\<exists>k_in k_out k_total k_1000.
           nearest_even (fl (fl (of_int input_tokens / 1000) * rate_in) * 10 ^ 8) k_in
         \<and> nearest_even (fl (fl (of_int output_tokens / 1000) * rate_out) * 10 ^ 8) k_out
         \<and> nearest_even (fl (fl (of_int k_in / 10 ^ 8) + fl (of_int k_out / 10 ^ 8)) * 10 ^ 6) k_total
         \<and> nearest_even (fl (fl (of_int k_total / 10 ^ 6) * 1000) * 10 ^ 6) k_1000
         \<and> calculate_total_price input_tokens output_tokens m =
             (fl (of_int k_in / 10 ^ 8), fl (of_int k_out / 10 ^ 8),
              fl (of_int k_total / 10 ^ 6), fl (of_int k_1000 / 10 ^ 6))"
    by (rule calculate_total_price_known)
next
  assume absent: "m \<notin> set (map fst model_input_token_prices)"
  show "map_of model_input_token_prices m = None"
    using absent by (rule absent_input_rate)
  show "map_of model_output_token_prices m = None"
    using absent by (rule absent_output_rate)
  show "calculate_total_price input_tokens output_tokens m = (0, 0, 0, 0)"
    using absent by (rule calculate_total_price_absent)
next
  assume "m \<in> set (map fst model_input_token_prices)"
  then show "\<exists>rate_in rate_out. map_of model_input_token_prices m = Some rate_in \<and>
           map_of model_output_token_prices m = Some rate_out"
    by (rule present_rates)
next
  show "fl 0 = 0" by (rule fl_zero)
next
  assume "x \<noteq> 0"
  from fl_spec [OF this]
  show "\<exists>e k. 2 powi e \<le> \<bar>x\<bar> \<and> \<bar>x\<bar> < 2 powi (e + 1) \<and>
           nearest_even (x / 2 powi (e - 52)) k \<and> fl x = of_int k * 2 powi (e - 52)"
    by blast
next
  show "calculate_total_price 1000 0 ''amazon.titan-text-lite-v1'' =
        (fl (3 / 10000), 0, fl (3 / 10000), fl (3 / 10))"
    by (rule titan_lite_price)
next
  show "calculate_total_price 1000 250 ''anthropic.claude-3-haiku-20240307-v1:0'' =
        (fl (25 / 100000), fl (3125 / 10000000), fl (563 / 1000000), fl (563 / 1000))"
    by (rule claude_haiku_price)
next
  show "calculate_total_price 1 0 ''ai21.j2-mid-v1'' =
        (fl (125 / 10000000), 0, fl (13 / 1000000), fl (13 / 1000))"
    by (rule jurassic_mid_price)
qed

theorem calculate_total_price_formula_witness:
  "''gpt-5'' \<notin> set (map fst model_input_token_prices)
   \<and> calculate_total_price 123456 789 ''gpt-5'' = (0, 0, 0, 0)
   \<and> ''anthropic.claude-3-haiku-20240307-v1:0'' \<in> set (map fst model_input_token_prices)
   \<and> map_of model_input_token_prices ''anthropic.claude-3-haiku-20240307-v1:0'' = Some (fl (2500 / 10000000))
   \<and> map_of model_output_token_prices ''anthropic.claude-3-haiku-20240307-v1:0'' = Some (fl (12500 / 10000000))
   \<and> nearest_even (fl (fl (of_int 1000 / 1000) * fl (2500 / 10000000)) * 10 ^ 8) 25000
   \<and> nearest_even (fl (fl (of_int 250 / 1000) * fl (12500 / 10000000)) * 10 ^ 8) 31250
   \<and> nearest_even (fl (fl (of_int 25000 / 10 ^ 8) + fl (of_int 31250 / 10 ^ 8)) * 10 ^ 6) 563
   \<and> nearest_even (fl (fl (of_int 563 / 10 ^ 6) * 1000) * 10 ^ 6) 563000
   \<and> calculate_total_price 1000 250 ''anthropic.claude-3-haiku-20240307-v1:0'' =
       (fl (of_int 25000 / 10 ^ 8), fl (of_int 31250 / 10 ^ 8), fl (of_int 563 / 10 ^ 6),
        fl (of_int 563000 / 10 ^ 6))
   \<and> (1 / 10 :: rat) \<noteq> 0
   \<and> fl (1 / 10) = of_int 7205759403792794 * 2 powi (-4 - 52)"
proof -
  let ?m = "''anthropic.claude-3-haiku-20240307-v1:0''"
  have absent: "''gpt-5'' \<notin> set (map fst model_input_token_prices)"
    by (simp add: model_input_token_prices_def)
  from calculate_total_price_formula [of "''gpt-5''" 123456 789] absent
  have zero: "calculate_total_price 123456 789 ''gpt-5'' = (0, 0, 0, 0)"
    by blast
  have present: "?m \<in> set (map fst model_input_token_prices)"
    by (simp add: model_input_token_prices_def)
  have rate_in: "map_of model_input_token_prices ?m = Some (fl (2500 / 10000000))"
    by (simp add: model_input_token_prices_def)
  have rate_out: "map_of model_output_token_prices ?m = Some (fl (12500 / 10000000))"
    by (simp add: model_output_token_prices_def)
  have s1: "fl (of_int 1000 / 1000) = 1"
    using fl_eq [of "0" "of_int 1000 / 1000" "4503599627370496"] by (simp add: nearest_even_def)
  have s2: "fl (2500 / 10000000) = 1152921504606847 / 4611686018427387904"
    using fl_eq [of "(- 12)" "2500 / 10000000" "4611686018427388"] by (simp add: nearest_even_def)
  have s3: "fl (1 * (1152921504606847 / 4611686018427387904)) = 1152921504606847 / 4611686018427387904"
    using fl_eq [of "(- 12)" "1 * (1152921504606847 / 4611686018427387904)" "4611686018427388"] by (simp add: nearest_even_def)
  have s4: "fl (of_int 25000 / 10 ^ 8) = 1152921504606847 / 4611686018427387904"
    using fl_eq [of "(- 12)" "of_int 25000 / 10 ^ 8" "4611686018427388"] by (simp add: nearest_even_def)
  have s5: "fl (of_int 250 / 1000) = 1 / 4"
    using fl_eq [of "(- 2)" "of_int 250 / 1000" "4503599627370496"] by (simp add: nearest_even_def)
  have s6: "fl (12500 / 10000000) = 5764607523034235 / 4611686018427387904"
    using fl_eq [of "(- 10)" "12500 / 10000000" "5764607523034235"] by (simp add: nearest_even_def)
  have s7: "fl ((1 / 4) * (5764607523034235 / 4611686018427387904)) = 5764607523034235 / 18446744073709551616"
    using fl_eq [of "(- 12)" "(1 / 4) * (5764607523034235 / 4611686018427387904)" "5764607523034235"] by (simp add: nearest_even_def)
  have s8: "fl (of_int 31250 / 10 ^ 8) = 5764607523034235 / 18446744073709551616"
    using fl_eq [of "(- 12)" "of_int 31250 / 10 ^ 8" "5764607523034235"] by (simp add: nearest_even_def)
  have s9: "fl ((1152921504606847 / 4611686018427387904) + (5764607523034235 / 18446744073709551616)) = 1297036692682703 / 2305843009213693952"
    using fl_eq [of "(- 11)" "(1152921504606847 / 4611686018427387904) + (5764607523034235 / 18446744073709551616)" "5188146770730812"] by (simp add: nearest_even_def)
  have s10: "fl (of_int 563 / 10 ^ 6) = 5192758456749239 / 9223372036854775808"
    using fl_eq [of "(- 11)" "of_int 563 / 10 ^ 6" "5192758456749239"] by (simp add: nearest_even_def)
  have s11: "fl ((5192758456749239 / 9223372036854775808) * 1000) = 5071053180419179 / 9007199254740992"
    using fl_eq [of "(- 1)" "(5192758456749239 / 9223372036854775808) * 1000" "5071053180419179"] by (simp add: nearest_even_def)
  have n1: "nearest_even (fl (fl (of_int 1000 / 1000) * fl (2500 / 10000000)) * 10 ^ 8) 25000"
    by (simp only: s1 s2 s3) (simp add: nearest_even_def)
  have n2: "nearest_even (fl (fl (of_int 250 / 1000) * fl (12500 / 10000000)) * 10 ^ 8) 31250"
    by (simp only: s5 s6 s7) (simp add: nearest_even_def)
  have n3: "nearest_even (fl (fl (of_int 25000 / 10 ^ 8) + fl (of_int 31250 / 10 ^ 8)) * 10 ^ 6) 563"
    by (simp only: s4 s8 s9) (simp add: nearest_even_def)
  have n4: "nearest_even (fl (fl (of_int 563 / 10 ^ 6) * 1000) * 10 ^ 6) 563000"
    by (simp only: s10 s11) (simp add: nearest_even_def)
  note formula = calculate_total_price_formula [where m = ?m and input_tokens = 1000
      and output_tokens = 250 and x = "1 / 10"]
  from formula have "\<forall>rate_in rate_out.
      map_of model_input_token_prices ?m = Some rate_in \<longrightarrow>
      map_of model_output_token_prices ?m = Some rate_out \<longrightarrow>
      (\<exists>k_in k_out k_total k_1000.
           nearest_even (fl (fl (of_int 1000 / 1000) * rate_in) * 10 ^ 8) k_in
         \<and> nearest_even (fl (fl (of_int 250 / 1000) * rate_out) * 10 ^ 8) k_out
         \<and> nearest_even (fl (fl (of_int k_in / 10 ^ 8) + fl (of_int k_out / 10 ^ 8)) * 10 ^ 6) k_total
         \<and> nearest_even (fl (fl (of_int k_total / 10 ^ 6) * 1000) * 10 ^ 6) k_1000
         \<and> calculate_total_price 1000 250 ?m =
             (fl (of_int k_in / 10 ^ 8), fl (of_int k_out / 10 ^ 8),
              fl (of_int k_total / 10 ^ 6), fl (of_int k_1000 / 10 ^ 6)))"
    by (rule conjunct1)
  from this [rule_format, OF rate_in rate_out] obtain k_in k_out k_total k_1000
    where a: "nearest_even (fl (fl (of_int 1000 / 1000) * fl (2500 / 10000000)) * 10 ^ 8) k_in"
      and b: "nearest_even (fl (fl (of_int 250 / 1000) * fl (12500 / 10000000)) * 10 ^ 8) k_out"
      and c: "nearest_even (fl (fl (of_int k_in / 10 ^ 8) + fl (of_int k_out / 10 ^ 8)) * 10 ^ 6) k_total"
      and d: "nearest_even (fl (fl (of_int k_total / 10 ^ 6) * 1000) * 10 ^ 6) k_1000"
      and p: "calculate_total_price 1000 250 ?m =
             (fl (of_int k_in / 10 ^ 8), fl (of_int k_out / 10 ^ 8),
              fl (of_int k_total / 10 ^ 6), fl (of_int k_1000 / 10 ^ 6))"
    by blast
  have k_in: "k_in = 25000" using a n1 by (rule nearest_even_unique)
  have k_out: "k_out = 31250" using b n2 by (rule nearest_even_unique)
  have k_total: "k_total = 563" using c [unfolded k_in k_out] n3 by (rule nearest_even_unique)
  have k_1000: "k_1000 = 563000" using d [unfolded k_total] n4 by (rule nearest_even_unique)
  note price = p [unfolded k_in k_out k_total k_1000]
  have nonzero: "(1 / 10 :: rat) \<noteq> 0" by simp
  from formula have "(1 / 10 :: rat) \<noteq> 0 \<longrightarrow>
        (\<exists>e k. 2 powi e \<le> \<bar>1 / 10 :: rat\<bar> \<and> \<bar>1 / 10 :: rat\<bar> < 2 powi (e + 1) \<and>
           nearest_even ((1 / 10) / 2 powi (e - 52)) k \<and> fl (1 / 10) = of_int k * 2 powi (e - 52))"
    by (elim conjE)
  from this [rule_format, OF nonzero] obtain e k
    where lo: "2 powi e \<le> \<bar>1 / 10 :: rat\<bar>" and hi: "\<bar>1 / 10 :: rat\<bar> < 2 powi (e + 1)"
      and near: "nearest_even ((1 / 10) / 2 powi (e - 52)) k"
      and res: "fl (1 / 10) = of_int k * 2 powi (e - 52)"
    by blast
  have "binade \<bar>1 / 10 :: rat\<bar> = e" using lo hi by (rule binade_eq)
  moreover have "binade \<bar>1 / 10 :: rat\<bar> = (- 4)" by (rule binade_eq) simp_all
  ultimately have e: "e = (- 4)" by simp
  have "nearest_even ((1 / 10) / 2 powi ((- 4) - 52)) 7205759403792794" by (simp add: nearest_even_def)
  with near [unfolded e] have k: "k = 7205759403792794" by (rule nearest_even_unique)
  note tenth = res [unfolded e k]
  from absent zero present rate_in rate_out n1 n2 n3 n4 price nonzero tenth show ?thesis
    by (intro conjI)
qed


section \<open>Properties of tag extraction\<close>


declare re_findall.simps [simp del] re_sub_empty.simps [simp del]

lemma run_lits_starts_with:
  "run (Do (lits t) # k) n s = Some e \<Longrightarrow> starts_with t s"
proof (induction t arbitrary: n s)
  case Nil
  then show ?case by simp
next
  case (Cons c cs)
  then show ?case by (cases s) (auto split: if_splits)
qed


lemma open_tag_Cons: "open_tag tag = CHR ''<'' # tag @ ''>''"
  by (simp add: open_tag_def)


lemma run_tag_pattern_starts_with:
  "run [Do (tag_pattern tag)] n s = Some e \<Longrightarrow> starts_with (open_tag tag) s"
  by (simp add: tag_pattern_def) (erule run_lits_starts_with)

lemma re_findall_absent:
  "\<not> substr_in (open_tag tag) s \<Longrightarrow> re_findall (tag_pattern tag) n s = []"
proof (induction s arbitrary: n)
  case Nil
  have "run [Do (tag_pattern tag)] n [] = None"
    by (simp add: tag_pattern_def open_tag_Cons)
  then show ?case by (simp add: re_findall.simps)
next
  case (Cons x xs)
  have "run [Do (tag_pattern tag)] n (x # xs) = None"
  proof (cases "run [Do (tag_pattern tag)] n (x # xs)")
    case None then show ?thesis .
  next
    case (Some e)
    then have "starts_with (open_tag tag) (x # xs)" by (rule run_tag_pattern_starts_with)
    with Cons.prems show ?thesis by simp
  qed
  moreover have "re_findall (tag_pattern tag) (Suc n) xs = []"
    using Cons by simp
  ultimately show ?case by (simp add: re_findall.simps [of _ n "x # xs"])
qed

lemma parse_xml_absent:
  "\<not> substr_in (open_tag tag) xml \<Longrightarrow> parse_xml xml tag = []"
  by (simp add: parse_xml_def re_findall_absent)

























lemma render_nested_length: "0 < length (render (Nested a inner b))"
  by simp

















lemma lits_shape [simp]:
  "lits t \<noteq> Sym c" "lits t \<noteq> MinStar c" "lits t \<noteq> Alt a b"
  "lits t \<noteq> MaxPlus r" "lits t \<noteq> Bol" "lits t \<noteq> Eol"
  "Sym c \<noteq> lits t" "MinStar c \<noteq> lits t" "Alt a b \<noteq> lits t"
  "MaxPlus r \<noteq> lits t" "Bol \<noteq> lits t" "Eol \<noteq> lits t"
  by (cases t; simp)+











lemmas parse_xml_eval = parse_xml_def tag_pattern_def outer_pattern_def open_tag_def close_tag_def
  nested_alt_def text_alt_def strip_def lstrip_def rstrip_def py_isspace_def
  re_findall.simps re_sub_empty.simps








section \<open>Properties of the evaluation of one summary\<close>


lemma those_map_Some:
  "(\<And>x. x \<in> set xs \<Longrightarrow> f x = Some (g x)) \<Longrightarrow> those (map f xs) = Some (map g xs)"
  by (induction xs) simp_all

lemma those_map_None:
  "x \<in> set xs \<Longrightarrow> f x = None \<Longrightarrow> those (map f xs) = None"
  by (induction xs) (auto split: option.splits)

lemma score_order_all: "d \<in> set score_order"
  by (cases d) (simp_all add: score_order_def)

lemma final_score_of_ints:
  assumes "\<And>d. py_int (fst (result d)) = Some (v d)"
  shows "final_score_of result =
           Inr (of_int (v Completeness + v Accuracy + v Flow + v Structure + v Conciseness +
                        v Clarity + v Objectivity + v Tone + v Task) / 9)"
proof -
  have "those (map (\<lambda>d. py_int (fst (result d))) score_order) = Some (map v score_order)"
    by (rule those_map_Some) (rule assms)
  then show ?thesis
    by (simp add: final_score_of_def score_order_def)
qed

lemma final_score_of_not_int:
  assumes "py_int (fst (result d)) = None"
  shows "final_score_of result = Inl ValueError"
proof -
  have "those (map (\<lambda>d. py_int (fst (result d))) score_order) = None"
    using score_order_all assms by (rule those_map_None)
  then show ?thesis
    by (simp add: final_score_of_def)
qed

lemma demo_reply_task:
  "model_execution demo_world (tr @ [TaskGradeCall m s src t c g]) = Inr (''4'', ''no'')"
  by (simp add: model_execution_def demo_world_def demo_reply_def parse_xml_eval)

lemma demo_reply_fixed:
  "model_execution demo_world (tr @ [GradeCall d m s src]) = Inr (''5'', ''ok'')"
  by (simp add: model_execution_def demo_world_def demo_reply_def parse_xml_eval)

lemma demo_grade:
  "grade demo_world d m s src t c g tr =
     (tr @ [if d = Task then TaskGradeCall m s src t c g else GradeCall d m s src],
      Inr (demo_result d))"
  by (simp add: grade_def eval_model_def eval_model_task_def demo_reply_task demo_reply_fixed
      demo_result_def Let_def)

lemma demo_completion: "completion demo_world tr = [Task, Accuracy]"
  by (simp add: demo_world_def)

lemma demo_gather:
  "\<exists>tr'. gather demo_world m s src t c g tr = (tr', Inr demo_result)"
proof -
  have "(\<lambda>d. ([], []))(Task := demo_result Task, Accuracy := demo_result Accuracy,
          Completeness := demo_result Completeness, Flow := demo_result Flow,
          Structure := demo_result Structure, Conciseness := demo_result Conciseness,
          Clarity := demo_result Clarity, Objectivity := demo_result Objectivity,
          Tone := demo_result Tone) = demo_result"
    (is "?r = _")
  proof (rule ext)
    fix d show "?r d = demo_result d" by (cases d) simp_all
  qed
  then show ?thesis
    by (simp add: gather_def gather_order_def graders_def demo_grade demo_completion)
qed

lemma py_int_5: "py_int ''5'' = Some 5" 
  by (simp add: py_int_def int_isspace_def is_digit_def digit_val_def)
lemma py_int_4: "py_int ''4'' = Some 4" 
  by (simp add: py_int_def int_isspace_def is_digit_def digit_val_def)
lemma py_int_empty: "py_int [] = None" 
  by (simp add: py_int_def int_isspace_def is_digit_def digit_val_def)

lemma orchestrator_after_gather:
  assumes "gather w model_name model_summary source_text_data task criteria scale tr = (tr', Inr result)"
  shows "evaluate_model_output_orchestrator w source_text_data model_name model_summary task
           criteria scale tr =
         (tr', case final_score_of result of
                 Inl e \<Rightarrow> Inl e
               | Inr final_score \<Rightarrow>
                   Inr (final_score, final_summary_of model_summary result,
                        final_score_rubric_of model_name result))"
  using assms by (simp add: evaluate_model_output_orchestrator_def)


lemma demo_result_ints:
  "py_int (fst (demo_result d)) = Some (if d = Task then 4 else 5)"
  by (simp add: demo_result_def py_int_4 py_int_5)


lemma model_execution_no_score_tag:
  assumes "judge w h = Inr output_text" and "\<not> substr_in ''<score>'' output_text"
  shows "model_execution w h = Inr ([], strip (parse_xml output_text ''thoughts''))"
proof -
  have "\<not> substr_in (open_tag ''score'') output_text"
    using assms(2) by (simp add: open_tag_def)
  then have "parse_xml output_text ''score'' = []"
    by (rule parse_xml_absent)
  then show ?thesis
    using assms(1) by (simp add: model_execution_def strip_def lstrip_def rstrip_def)
qed

text \<open>
  C4. Whenever the nine grading calls have returned and one of the score strings does
  not convert to an integer, \<open>evaluate_model_output_orchestrator\<close> raises \<open>ValueError\<close>
  where it computes the aggregate: no score is taken as 0 and no partial result is
  returned. The empty string does not convert, and the empty string is the score of a
  reply that has no score tag.
\<close>

theorem orchestrator_score_not_int:
  assumes "gather w model_name model_summary source_text_data task criteria scale tr = (tr', Inr result)"
    and "py_int (fst (result d)) = None"
  shows "evaluate_model_output_orchestrator w source_text_data model_name model_summary task
           criteria scale tr = (tr', Inl ValueError)
       \<and> py_int [] = None
       \<and> (judge w h = Inr output_text \<and> \<not> substr_in ''<score>'' output_text \<longrightarrow>
            model_execution w h = Inr ([], strip (parse_xml output_text ''thoughts'')))"
  using orchestrator_after_gather [OF assms(1)] final_score_of_not_int [of result d, OF assms(2)]
    py_int_empty model_execution_no_score_tag [of w h output_text]
  by simp

lemma mute_execution: "model_execution mute_world h = Inr ([], [])"
proof -
  have "judge mute_world h = Inr ''I cannot grade this.''"
    by (simp add: mute_world_def)
  moreover have "\<not> substr_in ''<score>'' ''I cannot grade this.''"
    by simp
  ultimately have "model_execution mute_world h =
      Inr ([], strip (parse_xml ''I cannot grade this.'' ''thoughts''))"
    by (rule model_execution_no_score_tag)
  moreover have "parse_xml ''I cannot grade this.'' ''thoughts'' = []"
    by (rule parse_xml_absent) (simp add: open_tag_def)
  ultimately show ?thesis
    by (simp add: strip_def lstrip_def rstrip_def)
qed

lemma grade_eq:
  "grade w d m s src t c g tr =
     (tr @ [grade_request d m s src t c g], model_execution w (tr @ [grade_request d m s src t c g]))"
  by (simp add: grade_def grade_request_def eval_model_def eval_model_task_def Let_def)

lemma mute_gather:
  "\<exists>tr' result. gather mute_world m s src t c g tr = (tr', Inr result) \<and> fst (result Task) = []"
proof -
  have "completion mute_world tr = []" by (simp add: mute_world_def)
  then show ?thesis
    by (simp add: gather_def gather_order_def graders_def grade_eq mute_execution)
qed

theorem orchestrator_score_not_int_witness:
  "judge mute_world [] = Inr ''I cannot grade this.''
   \<and> \<not> substr_in ''<score>'' ''I cannot grade this.''
   \<and> model_execution mute_world [] = Inr ([], [])
   \<and> snd (evaluate_model_output_orchestrator mute_world ''doc'' ''m'' ''s'' ''t'' ''c'' ''g'' [])
       = Inl ValueError"
proof -
  obtain tr' result
    where g: "gather mute_world ''m'' ''s'' ''doc'' ''t'' ''c'' ''g'' [] = (tr', Inr result)"
      and e: "fst (result Task) = []"
    using mute_gather by blast
  have "py_int (fst (result Task)) = None"
    using e by (simp add: py_int_empty)
  from orchestrator_score_not_int [OF g this, of "[]" "''I cannot grade this.''"]
  show ?thesis
    by (simp add: mute_execution) (simp add: mute_world_def)
qed

lemma graders_all: "d \<in> set graders"
  by (cases d) (simp_all add: graders_def)

lemma gather_order_distinct: "distinct (gather_order ds)"
  by (auto simp: gather_order_def graders_def)

lemma gather_order_all: "d \<in> set (gather_order ds)"
  using graders_all [of d] by (auto simp: gather_order_def)

lemma run_graders_extends:
  "run_graders w m s src t c g ds tr r0 = (tr', x) \<Longrightarrow> \<exists>post. tr' = tr @ post"
proof (induction ds arbitrary: tr r0)
  case Nil
  then show ?case by simp
next
  case (Cons d ds)
  show ?case
  proof (cases "model_execution w (tr @ [grade_request d m s src t c g])")
    case (Inl e)
    with Cons.prems show ?thesis by (auto simp: grade_eq)
  next
    case (Inr r)
    with Cons.prems have "run_graders w m s src t c g ds (tr @ [grade_request d m s src t c g])
        (r0(d := r)) = (tr', x)"
      by (simp add: grade_eq)
    from Cons.IH [OF this] show ?thesis by auto
  qed
qed

lemma run_graders_result:
  assumes "run_graders w m s src t c g ds tr r0 = (tr', Inr result)" and "distinct ds"
  shows "(d \<notin> set ds \<longrightarrow> result d = r0 d) \<and>
         (d \<in> set ds \<longrightarrow>
            (\<exists>pre post. tr' = pre @ grade_request d m s src t c g # post \<and>
               length tr \<le> length pre \<and>
               model_execution w (pre @ [grade_request d m s src t c g]) = Inr (result d)))"
  using assms
proof (induction ds arbitrary: tr r0)
  case Nil
  then show ?case by simp
next
  case (Cons d' ds)
  let ?tr1 = "tr @ [grade_request d' m s src t c g]"
  show ?case
  proof (cases "model_execution w ?tr1")
    case (Inl e)
    with Cons.prems show ?thesis by (simp add: grade_eq)
  next
    case (Inr r)
    with Cons.prems have rest: "run_graders w m s src t c g ds ?tr1 (r0(d' := r)) = (tr', Inr result)"
      by (simp add: grade_eq)
    from Cons.prems have dist: "distinct ds" and fresh: "d' \<notin> set ds" by simp_all
    note IH = Cons.IH [OF rest dist]
    show ?thesis
    proof (cases "d = d'")
      case True
      with IH fresh have res: "result d = r" by simp
      from run_graders_extends [OF rest] obtain post where "tr' = ?tr1 @ post" ..
      then have "tr' = tr @ grade_request d m s src t c g # post" using True by simp
      moreover have "model_execution w (tr @ [grade_request d m s src t c g]) = Inr (result d)"
        using Inr True res by simp
      ultimately show ?thesis using True by auto
    next
      case False
      show ?thesis
      proof (intro conjI impI)
        assume "d \<notin> set (d' # ds)"
        with IH False show "result d = r0 d" by simp
      next
        assume "d \<in> set (d' # ds)"
        with False have "d \<in> set ds" by simp
        with IH obtain pre post where "tr' = pre @ grade_request d m s src t c g # post"
          and "length ?tr1 \<le> length pre"
          and "model_execution w (pre @ [grade_request d m s src t c g]) = Inr (result d)"
          by blast
        then show "\<exists>pre post. tr' = pre @ grade_request d m s src t c g # post \<and>
               length tr \<le> length pre \<and>
               model_execution w (pre @ [grade_request d m s src t c g]) = Inr (result d)"
          by (intro exI [of _ pre] exI [of _ post]) simp
      qed
    qed
  qed
qed

lemma gather_result:
  assumes "gather w m s src t c g tr = (tr', Inr result)"
  shows "\<exists>pre post. tr' = pre @ grade_request d m s src t c g # post \<and>
           length tr \<le> length pre \<and>
           model_execution w (pre @ [grade_request d m s src t c g]) = Inr (result d)"
  using run_graders_result [OF assms [unfolded gather_def] gather_order_distinct, of d]
    gather_order_all [of d] by blast

lemma rubric_keys:
  "map fst (final_score_rubric_of model_name result) =
     [''model_name'', ''model_completeness_score'', ''model_accuracy_score'',
      ''model_flow_score'', ''model_structure_score'', ''model_conciseness_score'',
      ''model_clarity_score'', ''model_objectivity_score'', ''model_tone_score'',
      ''model_task_score'']"
  by (simp add: final_score_rubric_of_def)

lemma rubric_value:
  "map_of (final_score_rubric_of model_name result) (score_key d) = Some (fst (result d))"
  by (cases d) (simp_all add: final_score_rubric_of_def)

lemma rubric_model_name:
  "map_of (final_score_rubric_of model_name result) ''model_name'' = Some model_name"
  by (simp add: final_score_rubric_of_def)

lemma orchestrator_success:
  assumes "evaluate_model_output_orchestrator w src m s t c g tr = (tr', Inr (sc, narrative, rubric))"
  shows "\<exists>result. gather w m s src t c g tr = (tr', Inr result) \<and>
           final_score_of result = Inr sc \<and> narrative = final_summary_of s result \<and>
           rubric = final_score_rubric_of m result"
  using assms
  by (auto simp: evaluate_model_output_orchestrator_def split: prod.splits sum.splits)

text \<open>
  C8, as amended. For every successful call, in whatever order the world serves the nine
  grading calls, the keys of the returned score map are \<open>model_name\<close> followed by one
  key \<open>model_<dimension>_score\<close> for each of the nine dimensions; \<open>model_name\<close> holds the
  model identifier, and the key of a dimension holds the score read from the reply to
  that dimension's own grading request, a request of this call.
\<close>

theorem score_map_keys:
  assumes "evaluate_model_output_orchestrator w source_text_data model_name model_summary task
             criteria scale tr = (tr', Inr (final_score, final_summary, rubric))"
  shows "map fst rubric =
           [''model_name'', ''model_completeness_score'', ''model_accuracy_score'',
            ''model_flow_score'', ''model_structure_score'', ''model_conciseness_score'',
            ''model_clarity_score'', ''model_objectivity_score'', ''model_tone_score'',
            ''model_task_score'']
       \<and> map_of rubric ''model_name'' = Some model_name
       \<and> (\<exists>pre post score thoughts.
            tr' = pre @ grade_request d model_name model_summary source_text_data task
                          criteria scale # post \<and>
            length tr \<le> length pre \<and>
            model_execution w
              (pre @ [grade_request d model_name model_summary source_text_data task
                        criteria scale]) = Inr (score, thoughts) \<and>
            map_of rubric (score_key d) = Some score)"
proof -
  from orchestrator_success [OF assms] obtain result
    where g: "gather w model_name model_summary source_text_data task criteria scale tr
                = (tr', Inr result)"
      and r: "rubric = final_score_rubric_of model_name result"
    by blast
  from gather_result [OF g, of d] obtain pre post
    where "tr' = pre @ grade_request d model_name model_summary source_text_data task
                          criteria scale # post"
      and "length tr \<le> length pre"
      and "model_execution w
              (pre @ [grade_request d model_name model_summary source_text_data task
                        criteria scale]) = Inr (fst (result d), snd (result d))"
    by auto
  then show ?thesis
    unfolding r using rubric_keys rubric_value rubric_model_name by blast
qed

lemma demo_orchestrator:
  "snd (evaluate_model_output_orchestrator demo_world ''doc'' ''m'' ''s'' ''t'' ''c'' ''g'' []) =
     Inr (44 / 9, final_summary_of ''s'' demo_result, final_score_rubric_of ''m'' demo_result)"
proof -
  obtain tr' where g: "gather demo_world ''m'' ''s'' ''doc'' ''t'' ''c'' ''g'' [] = (tr', Inr demo_result)"
    using demo_gather by blast
  show ?thesis
    using orchestrator_after_gather [OF g] final_score_of_ints [of demo_result, OF demo_result_ints]
    by simp
qed

theorem score_map_keys_witness:
  "snd (evaluate_model_output_orchestrator demo_world ''doc'' ''m'' ''s'' ''t'' ''c'' ''g'' []) =
     Inr (44 / 9, final_summary_of ''s'' demo_result, final_score_rubric_of ''m'' demo_result)
   \<and> map fst (final_score_rubric_of ''m'' demo_result) =
           [''model_name'', ''model_completeness_score'', ''model_accuracy_score'',
            ''model_flow_score'', ''model_structure_score'', ''model_conciseness_score'',
            ''model_clarity_score'', ''model_objectivity_score'', ''model_tone_score'',
            ''model_task_score'']
   \<and> map_of (final_score_rubric_of ''m'' demo_result) (score_key Task) = Some ''4''"
proof -
  obtain tr' where e: "evaluate_model_output_orchestrator demo_world ''doc'' ''m'' ''s'' ''t'' ''c'' ''g'' [] =
     (tr', Inr (44 / 9, final_summary_of ''s'' demo_result, final_score_rubric_of ''m'' demo_result))"
    using demo_orchestrator by (metis prod.collapse)
  have k: "map fst (final_score_rubric_of ''m'' demo_result) =
           [''model_name'', ''model_completeness_score'', ''model_accuracy_score'',
            ''model_flow_score'', ''model_structure_score'', ''model_conciseness_score'',
            ''model_clarity_score'', ''model_objectivity_score'', ''model_tone_score'',
            ''model_task_score'']"
    using score_map_keys [OF e, of Task] by blast
  have v: "map_of (final_score_rubric_of ''m'' demo_result) (score_key Task) = Some ''4''"
    by (simp only: rubric_value) (simp add: demo_result_def)
  show ?thesis
    using demo_orchestrator k v by blast
qed

text \<open>
  C8 as stated fails: the map of a successful call has ten keys, \<open>model_name\<close> among
  them, and none of its keys is a bare dimension name.
\<close>

theorem score_map_keys_counterexample:
  "snd (evaluate_model_output_orchestrator demo_world ''doc'' ''m'' ''s'' ''t'' ''c'' ''g'' []) =
     Inr (44 / 9, final_summary_of ''s'' demo_result, final_score_rubric_of ''m'' demo_result)
   \<and> ''model_name'' \<in> set (map fst (final_score_rubric_of ''m'' demo_result))
   \<and> length (final_score_rubric_of ''m'' demo_result) = 10
   \<and> set (map fst (final_score_rubric_of ''m'' demo_result)) \<noteq>
       {''completeness'', ''accuracy'', ''flow'', ''structure'', ''conciseness'', ''clarity'',
        ''objectivity'', ''tone'', ''task''}"
proof -
  have "''model_name'' \<in> set (map fst (final_score_rubric_of ''m'' demo_result))"
    by (simp add: rubric_keys)
  moreover have "''model_name'' \<notin> {''completeness'', ''accuracy'', ''flow'', ''structure'',
        ''conciseness'', ''clarity'', ''objectivity'', ''tone'', ''task''}"
    by simp
  ultimately have "set (map fst (final_score_rubric_of ''m'' demo_result)) \<noteq>
       {''completeness'', ''accuracy'', ''flow'', ''structure'', ''conciseness'', ''clarity'',
        ''objectivity'', ''tone'', ''task''}"
    by metis
  then show ?thesis
    using demo_orchestrator by (simp add: final_score_rubric_of_def)
qed

section \<open>Properties of the run over the model list\<close>

lemma model_loop_skipped:
  "skipped mdl \<Longrightarrow> model_loop w ctx (mdl # models) tr st = model_loop w ctx models tr st"
  by simp

lemma model_loop_append:
  "model_loop w ctx (xs @ ys) tr st =
     (case model_loop w ctx xs tr st of
        (tr', Inl e) \<Rightarrow> (tr', Inl e)
      | (tr', Inr st') \<Rightarrow> model_loop w ctx ys tr' st')"
  by (induction xs arbitrary: tr st) (auto split: prod.splits sum.splits)

lemma model_loop_drop_skipped:
  assumes "skipped mdl"
  shows "model_loop w ctx (before @ mdl # after) tr st = model_loop w ctx (before @ after) tr st"
  using assms by (simp add: model_loop_append split: prod.splits sum.splits)

lemma model_loop_all_skipped:
  "\<forall>m \<in> set models. skipped m \<Longrightarrow> model_loop w ctx models tr st = (tr, Inr st)"
  by (induction models) simp_all

lemma final_evaluator_loop_unfold:
  "final_evaluator_loop w pdf_path models task_prompt mt =
     (case dynamic_grading_criteria w task_prompt [] of
        (tr, Inl e) \<Rightarrow> (tr, Inl e)
      | (tr, Inr (criteria, scale)) \<Rightarrow>
          model_loop w
            \<lparr>ctx_input_text_data = text_extraction w pdf_path, ctx_prompt = task_prompt,
             ctx_max_tokens = mt, ctx_dynamic_evaluation_criteria = criteria,
             ctx_dynamic_grading_scale = scale\<rparr>
            models tr empty_state)"
  by (simp add: final_evaluator_loop_def Let_def empty_state_def split: prod.splits sum.splits)

lemma dynamic_grading_criteria_trace:
  "fst (dynamic_grading_criteria w task tr) = tr @ [RubricCall task]"
  by (simp add: dynamic_grading_criteria_def Let_def split: sum.splits)

lemma loop_skips_identifier:
  assumes "substr_in ''embed'' mdl \<or> substr_in ''stability'' mdl"
  shows "model_loop w ctx (mdl # models) tr st = model_loop w ctx models tr st
       \<and> final_evaluator_loop w pdf_path (before @ mdl # after) task_prompt mt =
           final_evaluator_loop w pdf_path (before @ after) task_prompt mt"
proof -
  from assms have "skipped mdl" by (auto simp: skipped_def)
  then show ?thesis
    by (simp add: final_evaluator_loop_unfold model_loop_drop_skipped model_loop_skipped
        del: model_loop.simps split: prod.splits sum.splits)
qed

lemma evaluate_with_unfold:
  "evaluate_with w ctx fam mdl tr st =
     (case invoke w (tr @ [invoke_request ctx fam mdl]) of
        Inl e \<Rightarrow> (tr @ [invoke_request ctx fam mdl], Inl e)
      | Inr (summary, input_tokens, output_tokens) \<Rightarrow>
          if measured_time w ctx fam mdl tr = 0
          then (tr @ [invoke_request ctx fam mdl], Inl ZeroDivisionError)
          else
            (case evaluate_model_output_orchestrator w (ctx_input_text_data ctx) mdl summary
                    (ctx_prompt ctx) (ctx_dynamic_evaluation_criteria ctx)
                    (ctx_dynamic_grading_scale ctx) (tr @ [invoke_request ctx fam mdl]) of
               (tr2, Inl e) \<Rightarrow> (tr2, Inl e)
             | (tr2, Inr (score, narrative, rubric)) \<Rightarrow>
                 (tr2, Inr
                    \<lparr>results_list = results_list st @
                       [\<lparr>Model = mdl,
                         Time_Length = measured_time w ctx fam mdl tr,
                         Character_Count = length (ctx_input_text_data ctx),
                         Char_Process_Time =
                           of_nat (length (ctx_input_text_data ctx)) / measured_time w ctx fam mdl tr,
                         Input_Cost = fst (calculate_total_price input_tokens output_tokens mdl),
                         Output_Cost =
                           fst (snd (calculate_total_price input_tokens output_tokens mdl)),
                         Total_Cost =
                           fst (snd (snd (calculate_total_price input_tokens output_tokens mdl))),
                         Total_Cost_1000 =
                           snd (snd (snd (calculate_total_price input_tokens output_tokens mdl))),
                         Summary_Score = score,
                         Invoke_Response = summary\<rparr>],
                     score_rubric_list = score_rubric_list st @ [rubric],
                     evaluation_results_text = evaluation_results_text st @
                       evaluation_results
                         \<lparr>self_model = mdl,
                          self_time_length = measured_time w ctx fam mdl tr,
                          self_character_count = length (ctx_input_text_data ctx),
                          self_char_process_time =
                            of_nat (length (ctx_input_text_data ctx)) / measured_time w ctx fam mdl tr,
                          self_input_cost = fst (calculate_total_price input_tokens output_tokens mdl),
                          self_output_cost =
                            fst (snd (calculate_total_price input_tokens output_tokens mdl)),
                          self_total_cost =
                            fst (snd (snd (calculate_total_price input_tokens output_tokens mdl))),
                          self_total_cost_1000 =
                            snd (snd (snd (calculate_total_price input_tokens output_tokens mdl))),
                          self_final_score = score,
                          self_summary_invoke_response = summary,
                          self_final_summary = narrative\<rparr>\<rparr>)))"
  by (simp add: evaluate_with_def invoke_request_def measured_time_def Let_def format_def
      split: sum.splits prod.splits)

lemma evaluate_with_zero_time:
  assumes "invoke w (tr @ [invoke_request ctx fam mdl]) = Inr reply"
    and "measured_time w ctx fam mdl tr = 0"
  shows "evaluate_with w ctx fam mdl tr st = (tr @ [invoke_request ctx fam mdl], Inl ZeroDivisionError)"
  using assms by (simp add: evaluate_with_unfold split: prod.splits)

lemma evaluate_with_success:
  assumes "evaluate_with w ctx fam mdl tr st = (tr', Inr st')"
  shows "\<exists>row rubric.
           results_list st' = results_list st @ [row] \<and>
           score_rubric_list st' = score_rubric_list st @ [rubric] \<and>
           Model row = mdl \<and>
           measured_time w ctx fam mdl tr \<noteq> 0 \<and>
           Time_Length row = measured_time w ctx fam mdl tr \<and>
           Char_Process_Time row =
             of_nat (length (ctx_input_text_data ctx)) / measured_time w ctx fam mdl tr"
  using assms
  by (auto simp: evaluate_with_unfold split: sum.splits prod.splits if_splits)


lemma run_graders_trace:
  "run_graders w m s src t c g ds tr r0 = (tr', x) \<Longrightarrow>
   \<exists>post. tr' = tr @ post \<and> (\<forall>e \<in> set post. \<exists>d. e = grade_request d m s src t c g)"
proof (induction ds arbitrary: tr r0)
  case Nil
  then show ?case by simp
next
  case (Cons d ds)
  let ?tr1 = "tr @ [grade_request d m s src t c g]"
  show ?case
  proof (cases "model_execution w ?tr1")
    case (Inl e)
    with Cons.prems have "tr' = tr @ [grade_request d m s src t c g]"
      by (auto simp: grade_eq)
    then show ?thesis by auto
  next
    case (Inr r)
    with Cons.prems have "run_graders w m s src t c g ds ?tr1 (r0(d := r)) = (tr', x)"
      by (simp add: grade_eq)
    from Cons.IH [OF this] obtain post
      where "tr' = ?tr1 @ post" and "\<forall>e \<in> set post. \<exists>d. e = grade_request d m s src t c g"
      by blast
    then have "tr' = tr @ (grade_request d m s src t c g # post) \<and>
               (\<forall>e \<in> set (grade_request d m s src t c g # post).
                  \<exists>d. e = grade_request d m s src t c g)"
      by auto
    then show ?thesis by blast
  qed
qed

lemma orchestrator_trace:
  assumes "evaluate_model_output_orchestrator w src m s t c g tr = (tr', x)"
  shows "\<exists>post. tr' = tr @ post \<and> (\<forall>e \<in> set post. \<exists>d. e = grade_request d m s src t c g)"
proof -
  obtain y where "gather w m s src t c g tr = (tr', y)"
    using assms
    by (auto simp: evaluate_model_output_orchestrator_def split: prod.splits sum.splits)
  then show ?thesis
    unfolding gather_def by (rule run_graders_trace)
qed

lemma loop_event_grade_request:
  "loop_event ctx (grade_request d m s src (ctx_prompt ctx)
     (ctx_dynamic_evaluation_criteria ctx) (ctx_dynamic_grading_scale ctx))"
  by (simp add: grade_request_def)

lemma loop_event_invoke_request: "loop_event ctx (invoke_request ctx fam mdl)"
  by (simp add: invoke_request_def)

lemma evaluate_with_trace:
  assumes "evaluate_with w ctx fam mdl tr st = (tr', x)"
  shows "\<exists>post. tr' = tr @ post \<and> (\<forall>e \<in> set post. loop_event ctx e)"
proof (cases "invoke w (tr @ [invoke_request ctx fam mdl])")
  case (Inl e)
  with assms have "tr' = tr @ [invoke_request ctx fam mdl]"
    by (auto simp: evaluate_with_unfold)
  then show ?thesis using loop_event_invoke_request by auto
next
  case (Inr reply)
  obtain summary input_tokens output_tokens where reply: "reply = (summary, input_tokens, output_tokens)"
    by (cases reply)
  show ?thesis
  proof (cases "measured_time w ctx fam mdl tr = 0")
    case True
    with assms Inr have "tr' = tr @ [invoke_request ctx fam mdl]"
      by (simp add: evaluate_with_zero_time)
    then show ?thesis using loop_event_invoke_request by auto
  next
    case False
    let ?tr1 = "tr @ [invoke_request ctx fam mdl]"
    obtain y where o: "evaluate_model_output_orchestrator w (ctx_input_text_data ctx) mdl summary
                    (ctx_prompt ctx) (ctx_dynamic_evaluation_criteria ctx)
                    (ctx_dynamic_grading_scale ctx) ?tr1 = (tr', y)"
      using assms Inr reply False
      by (auto simp: evaluate_with_unfold split: prod.splits sum.splits)
    from orchestrator_trace [OF o] obtain post
      where "tr' = ?tr1 @ post"
        and "\<forall>e \<in> set post. \<exists>d. e = grade_request d mdl summary (ctx_input_text_data ctx)
               (ctx_prompt ctx) (ctx_dynamic_evaluation_criteria ctx) (ctx_dynamic_grading_scale ctx)"
      by blast
    then have "tr' = tr @ (invoke_request ctx fam mdl # post) \<and>
               (\<forall>e \<in> set (invoke_request ctx fam mdl # post). loop_event ctx e)"
      using loop_event_grade_request loop_event_invoke_request by auto
    then show ?thesis by blast
  qed
qed

lemma family_blocks_trace:
  "family_blocks w ctx fams mdl tr st = (tr', x) \<Longrightarrow>
   \<exists>post. tr' = tr @ post \<and> (\<forall>e \<in> set post. loop_event ctx e)"
proof (induction fams arbitrary: tr st)
  case Nil
  then show ?case by simp
next
  case (Cons fam fams)
  show ?case
  proof (cases "substr_in (family_name fam) mdl")
    case False
    with Cons show ?thesis by simp
  next
    case True
    obtain tr1 y where e: "evaluate_with w ctx fam mdl tr st = (tr1, y)"
      by (cases "evaluate_with w ctx fam mdl tr st")
    from evaluate_with_trace [OF e] obtain post1
      where p1: "tr1 = tr @ post1" "\<forall>e \<in> set post1. loop_event ctx e" by blast
    show ?thesis
    proof (cases y)
      case (Inl err)
      with Cons.prems True e have "tr' = tr1" by simp
      with p1 show ?thesis by blast
    next
      case (Inr st1)
      with Cons.prems True e have "family_blocks w ctx fams mdl tr1 st1 = (tr', x)" by simp
      from Cons.IH [OF this] obtain post2
        where "tr' = tr1 @ post2" "\<forall>e \<in> set post2. loop_event ctx e" by blast
      with p1 have "tr' = tr @ (post1 @ post2) \<and> (\<forall>e \<in> set (post1 @ post2). loop_event ctx e)"
        by auto
      then show ?thesis by blast
    qed
  qed
qed

lemma model_loop_trace:
  "model_loop w ctx models tr st = (tr', x) \<Longrightarrow>
   \<exists>post. tr' = tr @ post \<and> (\<forall>e \<in> set post. loop_event ctx e)"
proof (induction models arbitrary: tr st)
  case Nil
  then show ?case by simp
next
  case (Cons mdl models)
  show ?case
  proof (cases "skipped mdl")
    case True
    with Cons show ?thesis by simp
  next
    case False
    obtain tr1 y where e: "family_blocks w ctx families mdl tr st = (tr1, y)"
      by (cases "family_blocks w ctx families mdl tr st")
    from family_blocks_trace [OF e] obtain post1
      where p1: "tr1 = tr @ post1" "\<forall>e \<in> set post1. loop_event ctx e" by blast
    show ?thesis
    proof (cases y)
      case (Inl err)
      with Cons.prems False e have "tr' = tr1" by simp
      with p1 show ?thesis by blast
    next
      case (Inr st1)
      with Cons.prems False e have "model_loop w ctx models tr1 st1 = (tr', x)" by simp
      from Cons.IH [OF this] obtain post2
        where "tr' = tr1 @ post2" "\<forall>e \<in> set post2. loop_event ctx e" by blast
      with p1 have "tr' = tr @ (post1 @ post2) \<and> (\<forall>e \<in> set (post1 @ post2). loop_event ctx e)"
        by auto
      then show ?thesis by blast
    qed
  qed
qed

lemma demo_rubric:
  "dynamic_grading_criteria demo_world task tr =
     (tr @ [RubricCall task], Inr (''Two sentences?'', ''5 - exactly two''))"
  by (simp add: dynamic_grading_criteria_def demo_world_def demo_reply_def Let_def parse_xml_eval)

lemma demo_invoke: "invoke demo_world tr = Inr (''sum'', 1000, 0)"
  by (simp add: demo_world_def)

lemma demo_timer: "timer demo_world tr = of_nat (length tr)"
  by (simp add: demo_world_def)

lemma demo_text: "text_extraction demo_world path = ''doc''"
  by (simp add: demo_world_def)

lemma py_round_one: "py_round 1 2 = 1"
proof -
  have "round_half_even (1 * 10 ^ 2) = 100"
    by (rule round_half_even_eq) (simp add: nearest_even_def)
  then show ?thesis by (simp add: py_round_def fl_one)
qed

lemma demo_measured_time: "measured_time demo_world ctx fam mdl tr = 1"
  by (simp add: measured_time_def demo_timer py_round_one)

lemma demo_orchestrator_any:
  "\<exists>tr'. evaluate_model_output_orchestrator demo_world src m s t c g tr =
     (tr', Inr (44 / 9, final_summary_of s demo_result, final_score_rubric_of m demo_result))"
proof -
  obtain tr' where g: "gather demo_world m s src t c g tr = (tr', Inr demo_result)"
    using demo_gather by blast
  show ?thesis
    using orchestrator_after_gather [OF g] final_score_of_ints [of demo_result, OF demo_result_ints]
    by simp
qed

lemma demo_evaluate_with:
  "\<exists>tr' row rubric narrative.
     evaluate_with demo_world ctx fam mdl tr st =
       (tr', Inr \<lparr>results_list = results_list st @ [row],
                 score_rubric_list = score_rubric_list st @ [rubric],
                 evaluation_results_text = evaluation_results_text st @ narrative\<rparr>)
     \<and> Model row = mdl"
proof -
  obtain tr' where "evaluate_model_output_orchestrator demo_world (ctx_input_text_data ctx) mdl ''sum''
      (ctx_prompt ctx) (ctx_dynamic_evaluation_criteria ctx) (ctx_dynamic_grading_scale ctx)
      (tr @ [invoke_request ctx fam mdl]) =
     (tr', Inr (44 / 9, final_summary_of ''sum'' demo_result, final_score_rubric_of mdl demo_result))"
    using demo_orchestrator_any by blast
  then show ?thesis
    by (simp add: evaluate_with_unfold demo_invoke demo_measured_time)
qed

lemma family_blocks_rows:
  "family_blocks w ctx fams mdl tr st = (tr', Inr st') \<Longrightarrow>
   map Model (results_list st') =
     map Model (results_list st) @
       replicate (length (filter (\<lambda>fam. substr_in (family_name fam) mdl) fams)) mdl
   \<and> length (score_rubric_list st') =
       length (score_rubric_list st) +
         length (filter (\<lambda>fam. substr_in (family_name fam) mdl) fams)"
proof (induction fams arbitrary: tr st)
  case Nil
  then show ?case by simp
next
  case (Cons fam fams)
  show ?case
  proof (cases "substr_in (family_name fam) mdl")
    case False
    with Cons show ?thesis by simp
  next
    case True
    obtain tr1 y where e: "evaluate_with w ctx fam mdl tr st = (tr1, y)"
      by (cases "evaluate_with w ctx fam mdl tr st")
    show ?thesis
    proof (cases y)
      case (Inl err)
      with Cons.prems True e show ?thesis by simp
    next
      case (Inr st1)
      with Cons.prems True e have rest: "family_blocks w ctx fams mdl tr1 st1 = (tr', Inr st')"
        by simp
      from evaluate_with_success [OF e [unfolded Inr]] obtain row rubric
        where "results_list st1 = results_list st @ [row]"
          and "score_rubric_list st1 = score_rubric_list st @ [rubric]"
          and "Model row = mdl"
        by blast
      with Cons.IH [OF rest] True show ?thesis
        by (simp add: replicate_append_same)
    qed
  qed
qed

lemma model_loop_rows:
  "model_loop w ctx models tr st = (tr', Inr st') \<Longrightarrow>
   map Model (results_list st') = map Model (results_list st) @ concat (map rows_for models)
   \<and> length (score_rubric_list st') =
       length (score_rubric_list st) + length (concat (map rows_for models))"
proof (induction models arbitrary: tr st)
  case Nil
  then show ?case by simp
next
  case (Cons mdl models)
  show ?case
  proof (cases "skipped mdl")
    case True
    with Cons show ?thesis by (simp add: rows_for_def)
  next
    case False
    obtain tr1 y where e: "family_blocks w ctx families mdl tr st = (tr1, y)"
      by (cases "family_blocks w ctx families mdl tr st")
    show ?thesis
    proof (cases y)
      case (Inl err)
      with Cons.prems False e show ?thesis by simp
    next
      case (Inr st1)
      with Cons.prems False e have rest: "model_loop w ctx models tr1 st1 = (tr', Inr st')"
        by simp
      from family_blocks_rows [OF e [unfolded Inr]] Cons.IH [OF rest] False
      show ?thesis
        by (simp add: rows_for_def matching_families_def)
    qed
  qed
qed




lemma final_evaluator_success:
  assumes "final_evaluator_loop w pdf_path models task_prompt mt = (tr, Inr st)"
  shows "\<exists>ctx. model_loop w ctx models [RubricCall task_prompt] empty_state = (tr, Inr st)"
  using assms dynamic_grading_criteria_trace [of w task_prompt "[]"]
  by (auto simp: final_evaluator_loop_unfold split: prod.splits sum.splits)


lemma demo_family_blocks:
  "\<exists>tr' st'. family_blocks demo_world ctx fams mdl tr st = (tr', Inr st')"
proof (induction fams arbitrary: tr st)
  case Nil
  then show ?case by simp
next
  case (Cons fam fams)
  show ?case
  proof (cases "substr_in (family_name fam) mdl")
    case False
    with Cons show ?thesis by simp
  next
    case True
    from demo_evaluate_with [of ctx fam mdl tr st] obtain tr1 st1
      where "evaluate_with demo_world ctx fam mdl tr st = (tr1, Inr st1)" by blast
    with Cons [of tr1 st1] True show ?thesis by simp
  qed
qed

lemma demo_model_loop:
  "\<exists>tr' st'. model_loop demo_world ctx models tr st = (tr', Inr st')"
proof (induction models arbitrary: tr st)
  case Nil
  then show ?case by simp
next
  case (Cons mdl models)
  from demo_family_blocks [of ctx families mdl tr st] obtain tr1 st1
    where "family_blocks demo_world ctx families mdl tr st = (tr1, Inr st1)" by blast
  with Cons [of tr1 st1] Cons [of tr st] show ?case by simp
qed

lemma demo_final_evaluator:
  "\<exists>tr st. final_evaluator_loop demo_world pdf_path models task_prompt mt = (tr, Inr st)"
  using demo_model_loop by (simp add: final_evaluator_loop_unfold demo_rubric)

lemma demo_rows:
  "rows_of (final_evaluator_loop demo_world pdf_path models task_prompt mt) =
     Inr (concat (map rows_for models))"
proof -
  from demo_final_evaluator obtain tr st
    where run: "final_evaluator_loop demo_world pdf_path models task_prompt mt = (tr, Inr st)"
    by blast
  from final_evaluator_success [OF run] obtain c
    where "model_loop demo_world c models [RubricCall task_prompt] empty_state = (tr, Inr st)" ..
  from model_loop_rows [OF this] show ?thesis
    by (simp add: rows_of_def run empty_state_def)
qed




lemma demo_models_families:
  "matching_families ''amazon.titan-embed-text-v1'' = [Amazon]"
  "matching_families ''anthropic.claude-v2'' = [Anthropic]"
  "matching_families ''gpt-4-32k'' = []"
  "matching_families ''meta.llama2-13b-chat-v1'' = [Meta]"
  by (simp_all add: matching_families_def families_def)

lemma demo_models_skipped:
  "skipped ''amazon.titan-embed-text-v1''"
  "\<not> skipped ''anthropic.claude-v2''"
  "\<not> skipped ''gpt-4-32k''"
  "\<not> skipped ''meta.llama2-13b-chat-v1''"
  by (simp_all add: skipped_def)








lemma loop_rubric_once:
  "\<exists>rest. fst (final_evaluator_loop w pdf_path models task_prompt mt) = RubricCall task_prompt # rest
     \<and> length (filter is_rubric_call (fst (final_evaluator_loop w pdf_path models task_prompt mt))) = 1
     \<and> (\<forall>mdl summary text task criteria scale.
           TaskGradeCall mdl summary text task criteria scale \<in> set rest \<longrightarrow>
             task = task_prompt \<and>
             snd (dynamic_grading_criteria w task_prompt []) = Inr (criteria, scale))"
proof -
  obtain tr0 r where d: "dynamic_grading_criteria w task_prompt [] = (tr0, r)"
    by (cases "dynamic_grading_criteria w task_prompt []")
  have tr0: "tr0 = [RubricCall task_prompt]"
    using dynamic_grading_criteria_trace [of w task_prompt "[]"] d by simp
  show ?thesis
  proof (cases r)
    case (Inl e)
    then have "fst (final_evaluator_loop w pdf_path models task_prompt mt) = [RubricCall task_prompt]"
      using d tr0 by (simp add: final_evaluator_loop_unfold)
    then show ?thesis by simp
  next
    case (Inr pair)
    obtain criteria scale where pair: "pair = (criteria, scale)" by (cases pair)
    let ?ctx = "\<lparr>ctx_input_text_data = text_extraction w pdf_path, ctx_prompt = task_prompt,
             ctx_max_tokens = mt, ctx_dynamic_evaluation_criteria = criteria,
             ctx_dynamic_grading_scale = scale\<rparr>"
    obtain tr' x where loop: "model_loop w ?ctx models tr0 empty_state = (tr', x)"
      by (cases "model_loop w ?ctx models tr0 empty_state")
    then have fe: "final_evaluator_loop w pdf_path models task_prompt mt = (tr', x)"
      using d Inr pair by (simp add: final_evaluator_loop_unfold)
    from model_loop_trace [OF loop] obtain post
      where post: "tr' = tr0 @ post" and ev: "\<forall>e \<in> set post. loop_event ?ctx e"
      by blast
    have no_rubric: "filter is_rubric_call post = []"
    proof -
      have "\<And>e. e \<in> set post \<Longrightarrow> \<not> is_rubric_call e"
      proof -
        fix e assume "e \<in> set post"
        with ev have "loop_event ?ctx e" by blast
        then show "\<not> is_rubric_call e" by (cases e) simp_all
      qed
      then show ?thesis by (simp add: filter_empty_conv)
    qed
    have task_calls: "\<And>mdl summary text task c g.
           TaskGradeCall mdl summary text task c g \<in> set post \<Longrightarrow>
             task = task_prompt \<and> c = criteria \<and> g = scale"
    proof -
      fix mdl summary src task c g
      assume "TaskGradeCall mdl summary src task c g \<in> set post"
      with ev have "loop_event ?ctx (TaskGradeCall mdl summary src task c g)" by blast
      then show "task = task_prompt \<and> c = criteria \<and> g = scale" by simp
    qed
    have "fst (final_evaluator_loop w pdf_path models task_prompt mt) = RubricCall task_prompt # post"
      using fe post tr0 by simp
    moreover have "length (filter is_rubric_call (RubricCall task_prompt # post)) = 1"
      using no_rubric by simp
    moreover have "snd (dynamic_grading_criteria w task_prompt []) = Inr (criteria, scale)"
      using d Inr pair by simp
    ultimately show ?thesis
      using task_calls by (intro exI [of _ post]) auto
  qed
qed

lemma orchestrator_fst:
  "fst (evaluate_model_output_orchestrator w src m s t c g tr) = fst (gather w m s src t c g tr)"
  by (simp add: evaluate_model_output_orchestrator_def split: prod.splits sum.splits)

lemma demo_gather_trace:
  "fst (gather demo_world m s src t c g tr) =
     tr @ [TaskGradeCall m s src t c g, GradeCall Accuracy m s src, GradeCall Completeness m s src,
           GradeCall Flow m s src, GradeCall Structure m s src, GradeCall Conciseness m s src,
           GradeCall Clarity m s src, GradeCall Objectivity m s src, GradeCall Tone m s src]"
  by (simp add: gather_def gather_order_def graders_def demo_grade demo_completion)

lemma demo_evaluate_with_trace:
  "fst (evaluate_with demo_world ctx fam mdl tr st) =
     fst (gather demo_world mdl ''sum'' (ctx_input_text_data ctx) (ctx_prompt ctx)
            (ctx_dynamic_evaluation_criteria ctx) (ctx_dynamic_grading_scale ctx)
            (tr @ [invoke_request ctx fam mdl]))"
proof -
  from demo_evaluate_with [of ctx fam mdl tr st] obtain tr' st'
    where ok: "evaluate_with demo_world ctx fam mdl tr st = (tr', Inr st')" by blast
  obtain tr2 y where o: "evaluate_model_output_orchestrator demo_world (ctx_input_text_data ctx)
      mdl ''sum'' (ctx_prompt ctx) (ctx_dynamic_evaluation_criteria ctx)
      (ctx_dynamic_grading_scale ctx) (tr @ [invoke_request ctx fam mdl]) = (tr2, y)"
    by (cases "evaluate_model_output_orchestrator demo_world (ctx_input_text_data ctx)
      mdl ''sum'' (ctx_prompt ctx) (ctx_dynamic_evaluation_criteria ctx)
      (ctx_dynamic_grading_scale ctx) (tr @ [invoke_request ctx fam mdl])")
  have "tr' = tr2"
    using ok o
    by (cases y) (simp_all add: evaluate_with_unfold demo_invoke demo_measured_time
        split: prod.splits)
  moreover have "tr2 = fst (gather demo_world mdl ''sum'' (ctx_input_text_data ctx) (ctx_prompt ctx)
            (ctx_dynamic_evaluation_criteria ctx) (ctx_dynamic_grading_scale ctx)
            (tr @ [invoke_request ctx fam mdl]))"
    using orchestrator_fst [of demo_world "ctx_input_text_data ctx" mdl "''sum''" "ctx_prompt ctx"
      "ctx_dynamic_evaluation_criteria ctx" "ctx_dynamic_grading_scale ctx"
      "tr @ [invoke_request ctx fam mdl]"] o
    by simp
  ultimately show ?thesis by (simp add: ok)
qed

lemma demo_run_trace:
  "fst (final_evaluator_loop demo_world ''a.pdf'' [''anthropic.claude-v2''] ''p'' ''4096'') =
     [RubricCall ''p'',
      InvokeCall Anthropic ''anthropic.claude-v2'' ''p'' ''doc'' ''4096'',
      TaskGradeCall ''anthropic.claude-v2'' ''sum'' ''doc'' ''p'' ''Two sentences?''
        ''5 - exactly two'',
      GradeCall Accuracy ''anthropic.claude-v2'' ''sum'' ''doc'',
      GradeCall Completeness ''anthropic.claude-v2'' ''sum'' ''doc'',
      GradeCall Flow ''anthropic.claude-v2'' ''sum'' ''doc'',
      GradeCall Structure ''anthropic.claude-v2'' ''sum'' ''doc'',
      GradeCall Conciseness ''anthropic.claude-v2'' ''sum'' ''doc'',
      GradeCall Clarity ''anthropic.claude-v2'' ''sum'' ''doc'',
      GradeCall Objectivity ''anthropic.claude-v2'' ''sum'' ''doc'',
      GradeCall Tone ''anthropic.claude-v2'' ''sum'' ''doc'']"
proof -
  let ?ctx = "\<lparr>ctx_input_text_data = ''doc'', ctx_prompt = ''p'', ctx_max_tokens = ''4096'',
      ctx_dynamic_evaluation_criteria = ''Two sentences?'',
      ctx_dynamic_grading_scale = ''5 - exactly two''\<rparr>"
  obtain tr1 st1 where e: "evaluate_with demo_world ?ctx Anthropic ''anthropic.claude-v2''
      [RubricCall ''p''] empty_state = (tr1, Inr st1)"
    using demo_evaluate_with [of ?ctx Anthropic "''anthropic.claude-v2''" "[RubricCall ''p'']"
        empty_state] by blast
  have "tr1 = fst (evaluate_with demo_world ?ctx Anthropic ''anthropic.claude-v2''
      [RubricCall ''p''] empty_state)"
    by (simp add: e)
  then have tr1: "tr1 = [RubricCall ''p'',
      InvokeCall Anthropic ''anthropic.claude-v2'' ''p'' ''doc'' ''4096'',
      TaskGradeCall ''anthropic.claude-v2'' ''sum'' ''doc'' ''p'' ''Two sentences?''
        ''5 - exactly two'',
      GradeCall Accuracy ''anthropic.claude-v2'' ''sum'' ''doc'',
      GradeCall Completeness ''anthropic.claude-v2'' ''sum'' ''doc'',
      GradeCall Flow ''anthropic.claude-v2'' ''sum'' ''doc'',
      GradeCall Structure ''anthropic.claude-v2'' ''sum'' ''doc'',
      GradeCall Conciseness ''anthropic.claude-v2'' ''sum'' ''doc'',
      GradeCall Clarity ''anthropic.claude-v2'' ''sum'' ''doc'',
      GradeCall Objectivity ''anthropic.claude-v2'' ''sum'' ''doc'',
      GradeCall Tone ''anthropic.claude-v2'' ''sum'' ''doc'']"
    by (simp only: demo_evaluate_with_trace demo_gather_trace) (simp add: invoke_request_def)
  have "\<not> skipped ''anthropic.claude-v2''"
    by (simp add: skipped_def)
  then have "final_evaluator_loop demo_world ''a.pdf'' [''anthropic.claude-v2''] ''p'' ''4096''
          = (tr1, Inr st1)"
    by (simp add: final_evaluator_loop_unfold demo_rubric demo_text families_def e)
  then show ?thesis
    by (simp add: tr1)
qed


subsection \<open>The run from the first line to the return\<close>

lemma write_files_trace:
  "\<exists>post. fst (write_files w names tr) = tr @ post \<and> (\<forall>e \<in> set post. is_report_event e)"
proof (induction names arbitrary: tr)
  case Nil
  then show ?case by simp
next
  case (Cons name names)
  show ?case
  proof (cases "storage w (tr @ [WriteCall name])")
    case (Some e)
    then have "fst (write_files w (name # names) tr) = tr @ [WriteCall name]"
      by (simp add: write_file_def)
    then show ?thesis by auto
  next
    case None
    then have "fst (write_files w (name # names) tr) = fst (write_files w names (tr @ [WriteCall name]))"
      by (simp add: write_file_def)
    moreover from Cons [of "tr @ [WriteCall name]"] obtain post
      where "fst (write_files w names (tr @ [WriteCall name])) = (tr @ [WriteCall name]) @ post"
        and "\<forall>e \<in> set post. is_report_event e" by blast
    ultimately have "fst (write_files w (name # names) tr) = tr @ (WriteCall name # post) \<and>
        (\<forall>e \<in> set (WriteCall name # post). is_report_event e)"
      by simp
    then show ?thesis by blast
  qed
qed

lemma final_evaluator_loop_error:
  "final_evaluator_loop w pdf_path models task_prompt mt = (tr, Inl e) \<Longrightarrow>
   final_evaluator w pdf_path models task_prompt mt = (tr, Inl e)"
  by (simp add: final_evaluator_def)

lemma final_evaluator_no_rows:
  "final_evaluator_loop w pdf_path models task_prompt mt = (tr, Inr st) \<Longrightarrow>
   results_list st = [] \<Longrightarrow>
   final_evaluator w pdf_path models task_prompt mt = (tr, Inl KeyError)"
  by (simp add: final_evaluator_def)

lemma final_evaluator_same_loop:
  "final_evaluator_loop w pdf_path models task_prompt mt =
     final_evaluator_loop w pdf_path models' task_prompt mt \<Longrightarrow>
   final_evaluator w pdf_path models task_prompt mt =
     final_evaluator w pdf_path models' task_prompt mt"
  by (simp add: final_evaluator_def)


lemma final_evaluator_trace:
  "\<exists>post. fst (final_evaluator w pdf_path models task_prompt mt) =
            fst (final_evaluator_loop w pdf_path models task_prompt mt) @ post \<and>
          (\<forall>e \<in> set post. is_report_event e)"
proof -
  obtain tr x where loop: "final_evaluator_loop w pdf_path models task_prompt mt = (tr, x)"
    by (cases "final_evaluator_loop w pdf_path models task_prompt mt")
  show ?thesis
  proof (cases x)
    case (Inl e)
    with loop show ?thesis by (simp add: final_evaluator_def)
  next
    case (Inr st)
    show ?thesis
    proof (cases "results_list st = []")
      case True
      with loop Inr show ?thesis by (simp add: final_evaluator_def)
    next
      case False
      let ?csv = "WriteCall ''reports/model_performance_comparison.csv''"
      let ?df = "map (\<lambda>row. row\<lparr>Total_Cost := fl (Total_Cost row * 1000)\<rparr>) (results_list st)"
      let ?names = "[''reports/graph.png'', ''reports/rubric_graph.png'',
                     ''reports/summary-evaluation_results'', ''reports/cost-evaluation_results'']"
      show ?thesis
      proof (cases "storage w (tr @ [?csv])")
        case (Some e)
        with loop Inr False
        have "fst (final_evaluator w pdf_path models task_prompt mt) = tr @ [?csv]"
          by (simp add: final_evaluator_def write_file_def)
        with loop show ?thesis by auto
      next
        case None
        show ?thesis
        proof (cases "judge w (tr @ [?csv, PerformanceCall ?df])")
          case (Inl e)
          with loop Inr False None
          have "fst (final_evaluator w pdf_path models task_prompt mt) =
                  tr @ [?csv, PerformanceCall ?df]"
            by (simp add: final_evaluator_def write_file_def evaluate_model_performance_def)
          with loop show ?thesis by auto
        next
          case (Inr response)
          from write_files_trace [of w ?names "tr @ [?csv, PerformanceCall ?df]"] obtain post
            where post: "fst (write_files w ?names (tr @ [?csv, PerformanceCall ?df])) =
                     (tr @ [?csv, PerformanceCall ?df]) @ post"
              and rep: "\<forall>e \<in> set post. is_report_event e"
            by blast
          have "fst (final_evaluator w pdf_path models task_prompt mt) =
                  fst (write_files w ?names (tr @ [?csv, PerformanceCall ?df]))"
            using loop \<open>x = Inr st\<close> False None Inr
            by (simp add: final_evaluator_def write_file_def evaluate_model_performance_def
                split: prod.splits option.splits)
          with post have "fst (final_evaluator w pdf_path models task_prompt mt) =
                  tr @ (?csv # PerformanceCall ?df # post)"
            by simp
          moreover have "\<forall>e \<in> set (?csv # PerformanceCall ?df # post). is_report_event e"
            using rep by simp
          moreover have "fst (final_evaluator_loop w pdf_path models task_prompt mt) = tr"
            using loop by simp
          ultimately show ?thesis by (simp only:) (rule exI, rule conjI [OF refl])
        qed
      qed
    qed
  qed
qed


lemma demo_storage: "storage demo_world tr = None"
  by (simp add: demo_world_def)

lemma demo_judge: "\<exists>reply. judge demo_world tr = Inr reply"
  by (simp add: demo_world_def)

lemma demo_write_files: "\<exists>tr'. write_files demo_world names tr = (tr', None)"
  by (induction names arbitrary: tr) (simp_all add: write_file_def demo_storage)

lemma demo_final_returns:
  assumes "rows_of (final_evaluator_loop demo_world pdf_path models task_prompt mt) = Inr rows"
    and "rows \<noteq> []"
  shows "returned_rows (final_evaluator demo_world pdf_path models task_prompt mt) = Inr rows"
proof -
  from demo_final_evaluator obtain tr st
    where run: "final_evaluator_loop demo_world pdf_path models task_prompt mt = (tr, Inr st)"
    by blast
  with assms have rows: "map Model (results_list st) = rows" and ne: "results_list st \<noteq> []"
    by (auto simp: rows_of_def)
  let ?df = "map (\<lambda>row. row\<lparr>Total_Cost := fl (Total_Cost row * 1000)\<rparr>) (results_list st)"
  let ?tr2 = "tr @ [WriteCall ''reports/model_performance_comparison.csv'', PerformanceCall ?df]"
  obtain reply where reply: "judge demo_world ?tr2 = Inr reply"
    using demo_judge by blast
  obtain tr3 where files: "write_files demo_world
      [''reports/graph.png'', ''reports/rubric_graph.png'',
       ''reports/summary-evaluation_results'', ''reports/cost-evaluation_results''] ?tr2 = (tr3, None)"
    using demo_write_files by blast
  have "final_evaluator demo_world pdf_path models task_prompt mt =
          (tr3, Inr \<lparr>returned_results_df = ?df,
                     returned_evaluation_results = evaluation_results_text st,
                     returned_costs_eval_response = reply,
                     returned_score_rubric_df = score_rubric_list st\<rparr>)"
    unfolding final_evaluator_def
    by (simp add: run ne write_file_def demo_storage evaluate_model_performance_def reply files
        del: write_files.simps)
  then show ?thesis
    using rows by (simp add: returned_rows_def comp_def)
qed

text \<open>
  C10. A model identifier that contains \<open>embed\<close> or \<open>stability\<close> anywhere is passed over
  by the loop: the iteration makes no request and appends no row, whatever else the
  identifier contains, so a run with the identifier in its list has the same trace and the
  same result as the run without it, at the end of the loop and at the end of the run.
\<close>

theorem skipped_identifier_ignored:
  assumes "substr_in ''embed'' mdl \<or> substr_in ''stability'' mdl"
  shows "model_loop w ctx (mdl # models) tr st = model_loop w ctx models tr st
       \<and> final_evaluator w pdf_path (before @ mdl # after) task_prompt mt =
           final_evaluator w pdf_path (before @ after) task_prompt mt
       \<and> final_evaluator_loop w pdf_path (before @ mdl # after) task_prompt mt =
           final_evaluator_loop w pdf_path (before @ after) task_prompt mt"
proof -
  from loop_skips_identifier [OF assms]
  have step: "model_loop w ctx (mdl # models) tr st = model_loop w ctx models tr st"
    and loop: "final_evaluator_loop w pdf_path (before @ mdl # after) task_prompt mt =
           final_evaluator_loop w pdf_path (before @ after) task_prompt mt"
    by blast+
  from final_evaluator_same_loop [OF loop] step loop show ?thesis by (intro conjI)
qed

text \<open>
  C7, as amended. A run whose model list holds only identifiers that contain \<open>embed\<close> or
  \<open>stability\<close> (as \<open>amazon.titan-embed-text-v1\<close>) leaves the loop as the run on the
  empty list does: when the rubric call has returned, the only request made is that call
  and no row and no score map has been appended. The run then returns no report: it ends
  with an exception after its one request, which is \<open>KeyError\<close> from the selection of
  the columns of the empty table when the rubric call had returned.
\<close>

theorem only_skipped_models_no_rows:
  assumes "\<forall>m \<in> set models. skipped m"
  shows "final_evaluator_loop w pdf_path models task_prompt mt =
           final_evaluator_loop w pdf_path [] task_prompt mt
       \<and> (\<forall>tr st. final_evaluator_loop w pdf_path models task_prompt mt = (tr, Inr st) \<longrightarrow>
             tr = [RubricCall task_prompt] \<and> results_list st = [] \<and> score_rubric_list st = [] \<and>
             final_evaluator w pdf_path models task_prompt mt =
               ([RubricCall task_prompt], Inl KeyError))
       \<and> (\<exists>e. final_evaluator w pdf_path models task_prompt mt = ([RubricCall task_prompt], Inl e))"
proof -
  have eq: "final_evaluator_loop w pdf_path models task_prompt mt =
           final_evaluator_loop w pdf_path [] task_prompt mt"
    by (simp add: final_evaluator_loop_unfold model_loop_all_skipped [OF assms]
        split: prod.splits sum.splits)
  have empty: "\<And>tr st. final_evaluator_loop w pdf_path [] task_prompt mt = (tr, Inr st) \<Longrightarrow>
             tr = [RubricCall task_prompt] \<and> results_list st = [] \<and> score_rubric_list st = []"
    using dynamic_grading_criteria_trace [of w task_prompt "[]"]
    by (auto simp: final_evaluator_loop_unfold empty_state_def split: prod.splits sum.splits)
  have key: "\<And>tr st. final_evaluator_loop w pdf_path models task_prompt mt = (tr, Inr st) \<Longrightarrow>
             final_evaluator w pdf_path models task_prompt mt =
               ([RubricCall task_prompt], Inl KeyError)"
  proof -
    fix tr st
    assume run: "final_evaluator_loop w pdf_path models task_prompt mt = (tr, Inr st)"
    with eq empty [of tr st] have "tr = [RubricCall task_prompt]" and "results_list st = []"
      by simp_all
    with final_evaluator_no_rows [OF run] show "final_evaluator w pdf_path models task_prompt mt =
               ([RubricCall task_prompt], Inl KeyError)"
      by simp
  qed
  have ends: "\<exists>e. final_evaluator w pdf_path models task_prompt mt =
                 ([RubricCall task_prompt], Inl e)"
  proof -
    obtain tr x where run: "final_evaluator_loop w pdf_path models task_prompt mt = (tr, x)"
      by (cases "final_evaluator_loop w pdf_path models task_prompt mt")
    show ?thesis
    proof (cases x)
      case (Inl e)
      have "fst (final_evaluator_loop w pdf_path [] task_prompt mt) = [RubricCall task_prompt]"
        using dynamic_grading_criteria_trace [of w task_prompt "[]"]
        by (cases "dynamic_grading_criteria w task_prompt []")
          (auto simp: final_evaluator_loop_unfold split: sum.splits)
      with eq run have "tr = [RubricCall task_prompt]" by (metis fst_conv)
      with final_evaluator_loop_error [of w pdf_path models task_prompt mt tr e] run Inl
      show ?thesis by simp
    next
      case (Inr st)
      with key [of tr st] run show ?thesis by simp
    qed
  qed
  from eq empty key ends show ?thesis by simp
qed

theorem only_skipped_models_no_rows_witness:
  "list_all skipped [''amazon.titan-embed-text-v1'']
   \<and> final_evaluator_loop demo_world ''a.pdf'' [''amazon.titan-embed-text-v1''] ''p'' ''4096'' =
       ([RubricCall ''p''], Inr empty_state)
   \<and> final_evaluator demo_world ''a.pdf'' [''amazon.titan-embed-text-v1''] ''p'' ''4096'' =
       ([RubricCall ''p''], Inl KeyError)"
proof -
  let ?models = "[''amazon.titan-embed-text-v1'']"
  have sk: "\<forall>m \<in> set ?models. skipped m"
    by (simp add: skipped_def)
  have empty: "final_evaluator_loop demo_world ''a.pdf'' [] ''p'' ''4096'' =
      ([RubricCall ''p''], Inr empty_state)"
    by (simp add: final_evaluator_loop_unfold demo_rubric)
  note inst = only_skipped_models_no_rows [OF sk, of demo_world "''a.pdf''" "''p''" "''4096''"]
  from inst have same: "final_evaluator_loop demo_world ''a.pdf'' ?models ''p'' ''4096'' =
      final_evaluator_loop demo_world ''a.pdf'' [] ''p'' ''4096''"
    by (rule conjunct1)
  with empty have loop: "final_evaluator_loop demo_world ''a.pdf'' ?models ''p'' ''4096'' =
      ([RubricCall ''p''], Inr empty_state)"
    by (simp only:)
  from inst [THEN conjunct2, THEN conjunct1, THEN spec, THEN spec, THEN mp, OF loop]
  have full: "final_evaluator demo_world ''a.pdf'' ?models ''p'' ''4096'' =
      ([RubricCall ''p''], Inl KeyError)"
    by (elim conjE)
  have "list_all skipped ?models"
    by (simp add: skipped_def)
  with loop full show ?thesis by (intro conjI)
qed

text \<open>
  C7 as stated fails twice. The identifier \<open>amazon.titan-image-generator-v1\<close> of an image
  model contains neither \<open>embed\<close> nor \<open>stability\<close>: it is not passed over, the Amazon
  adapter is called with it and it gets a row. And the run on a list of an embedding
  identifier alone does not return a table without rows: it raises \<open>KeyError\<close>.
\<close>

theorem only_skipped_models_counterexample:
  "filter skipped [''amazon.titan-image-generator-v1''] = []
   \<and> rows_of (final_evaluator_loop demo_world ''a.pdf'' [''amazon.titan-image-generator-v1'']
        ''p'' ''4096'') = Inr [''amazon.titan-image-generator-v1'']
   \<and> returned_rows (final_evaluator demo_world ''a.pdf'' [''amazon.titan-image-generator-v1'']
        ''p'' ''4096'') = Inr [''amazon.titan-image-generator-v1'']
   \<and> InvokeCall Amazon ''amazon.titan-image-generator-v1'' ''p'' ''doc'' ''4096''
       \<in> set (fst (final_evaluator demo_world ''a.pdf'' [''amazon.titan-image-generator-v1'']
            ''p'' ''4096''))
   \<and> snd (final_evaluator demo_world ''a.pdf'' [''amazon.titan-embed-text-v1''] ''p'' ''4096'') =
       Inl KeyError"
proof -
  let ?m = "''amazon.titan-image-generator-v1''"
  let ?ctx = "\<lparr>ctx_input_text_data = ''doc'', ctx_prompt = ''p'', ctx_max_tokens = ''4096'',
      ctx_dynamic_evaluation_criteria = ''Two sentences?'',
      ctx_dynamic_grading_scale = ''5 - exactly two''\<rparr>"
  have ns: "\<not> skipped ?m" by (simp add: skipped_def)
  have fam: "matching_families ?m = [Amazon]"
    by (simp add: matching_families_def families_def)
  have rows: "rows_of (final_evaluator_loop demo_world ''a.pdf'' [?m] ''p'' ''4096'') = Inr [?m]"
    by (simp add: demo_rows rows_for_def fam ns)
  from demo_final_returns [OF rows]
  have ret: "returned_rows (final_evaluator demo_world ''a.pdf'' [?m] ''p'' ''4096'') = Inr [?m]"
    by simp
  obtain tr1 st1 where e: "evaluate_with demo_world ?ctx Amazon ?m [RubricCall ''p''] empty_state
      = (tr1, Inr st1)"
    using demo_evaluate_with [of ?ctx Amazon ?m "[RubricCall ''p'']" empty_state] by blast
  have "tr1 = fst (evaluate_with demo_world ?ctx Amazon ?m [RubricCall ''p''] empty_state)"
    by (simp add: e)
  then have tr1: "InvokeCall Amazon ?m ''p'' ''doc'' ''4096'' \<in> set tr1"
    by (simp only: demo_evaluate_with_trace demo_gather_trace) (simp add: invoke_request_def)
  have "final_evaluator_loop demo_world ''a.pdf'' [?m] ''p'' ''4096'' = (tr1, Inr st1)"
    using ns by (simp add: final_evaluator_loop_unfold demo_rubric demo_text families_def e)
  then have "InvokeCall Amazon ?m ''p'' ''doc'' ''4096''
       \<in> set (fst (final_evaluator_loop demo_world ''a.pdf'' [?m] ''p'' ''4096''))"
    using tr1 by simp
  moreover from final_evaluator_trace [of demo_world "''a.pdf''" "[?m]" "''p''" "''4096''"]
  obtain post where "fst (final_evaluator demo_world ''a.pdf'' [?m] ''p'' ''4096'') =
       fst (final_evaluator_loop demo_world ''a.pdf'' [?m] ''p'' ''4096'') @ post" by blast
  ultimately have call: "InvokeCall Amazon ?m ''p'' ''doc'' ''4096''
       \<in> set (fst (final_evaluator demo_world ''a.pdf'' [?m] ''p'' ''4096''))"
    by simp
  have "final_evaluator_loop demo_world ''a.pdf'' [''amazon.titan-embed-text-v1''] ''p'' ''4096'' =
      ([RubricCall ''p''], Inr empty_state)"
    by (simp add: final_evaluator_loop_unfold demo_rubric skipped_def)
  from final_evaluator_no_rows [OF this]
  have key: "snd (final_evaluator demo_world ''a.pdf'' [''amazon.titan-embed-text-v1''] ''p'' ''4096'') =
       Inl KeyError"
    by (simp add: empty_state_def)
  have "filter skipped [?m] = []" using ns by simp
  with rows ret call key show ?thesis by (intro conjI)
qed

lemma demo_write_files_trace:
  "write_files demo_world names tr = (tr @ map WriteCall names, None)"
  by (induction names arbitrary: tr) (simp_all add: write_file_def demo_storage)


lemma demo_final_trace:
  assumes "rows_of (final_evaluator_loop demo_world pdf_path models task_prompt mt) = Inr rows"
    and "rows \<noteq> []"
  shows "\<exists>df. fst (final_evaluator demo_world pdf_path models task_prompt mt) =
           fst (final_evaluator_loop demo_world pdf_path models task_prompt mt) @
           [WriteCall ''reports/model_performance_comparison.csv'', PerformanceCall df,
            WriteCall ''reports/graph.png'', WriteCall ''reports/rubric_graph.png'',
            WriteCall ''reports/summary-evaluation_results'',
            WriteCall ''reports/cost-evaluation_results'']"
proof -
  from demo_final_evaluator obtain tr st
    where run: "final_evaluator_loop demo_world pdf_path models task_prompt mt = (tr, Inr st)"
    by blast
  with assms have ne: "results_list st \<noteq> []"
    by (auto simp: rows_of_def)
  let ?df = "map (\<lambda>row. row\<lparr>Total_Cost := fl (Total_Cost row * 1000)\<rparr>) (results_list st)"
  let ?tr2 = "tr @ [WriteCall ''reports/model_performance_comparison.csv'', PerformanceCall ?df]"
  obtain reply where reply: "judge demo_world ?tr2 = Inr reply"
    using demo_judge by blast
  have "fst (final_evaluator demo_world pdf_path models task_prompt mt) =
          tr @ [WriteCall ''reports/model_performance_comparison.csv'', PerformanceCall ?df,
            WriteCall ''reports/graph.png'', WriteCall ''reports/rubric_graph.png'',
            WriteCall ''reports/summary-evaluation_results'',
            WriteCall ''reports/cost-evaluation_results'']"
    unfolding final_evaluator_def
    by (simp add: run ne write_file_def demo_storage evaluate_model_performance_def reply
        demo_write_files_trace Let_def del: write_files.simps)
  then show ?thesis
    by (simp only: run fst_conv) (rule exI, rule refl)
qed

text \<open>
  C9. In every run the first request is the rubric call for the task prompt, it is the
  only rubric call of the run, so it precedes every call of a candidate model, and every
  grading request for the task dimension carries the task prompt and the criteria and
  grading-scale texts that this one call returned.
\<close>

theorem rubric_generated_once:
  "\<exists>rest. fst (final_evaluator w pdf_path models task_prompt mt) = RubricCall task_prompt # rest
     \<and> length (filter is_rubric_call (fst (final_evaluator w pdf_path models task_prompt mt))) = 1
     \<and> (\<forall>mdl summary text task criteria scale.
           TaskGradeCall mdl summary text task criteria scale \<in> set rest \<longrightarrow>
             task = task_prompt \<and>
             snd (dynamic_grading_criteria w task_prompt []) = Inr (criteria, scale))"
proof -
  from loop_rubric_once [of w pdf_path models task_prompt mt] obtain rest
    where head: "fst (final_evaluator_loop w pdf_path models task_prompt mt) =
                   RubricCall task_prompt # rest"
      and once: "length (filter is_rubric_call
                   (fst (final_evaluator_loop w pdf_path models task_prompt mt))) = 1"
      and calls: "\<And>mdl summary src task criteria scale.
           TaskGradeCall mdl summary src task criteria scale \<in> set rest \<Longrightarrow>
             task = task_prompt \<and>
             snd (dynamic_grading_criteria w task_prompt []) = Inr (criteria, scale)"
    by blast
  from final_evaluator_trace [of w pdf_path models task_prompt mt] obtain post
    where full: "fst (final_evaluator w pdf_path models task_prompt mt) =
                   fst (final_evaluator_loop w pdf_path models task_prompt mt) @ post"
      and report: "\<forall>e \<in> set post. is_report_event e"
    by blast
  have no_rubric: "filter is_rubric_call post = []"
  proof -
    have "\<And>e. e \<in> set post \<Longrightarrow> \<not> is_rubric_call e"
    proof -
      fix e assume "e \<in> set post"
      with report have "is_report_event e" by blast
      then show "\<not> is_rubric_call e" by (cases e) simp_all
    qed
    then show ?thesis by (simp add: filter_empty_conv)
  qed
  have no_task: "\<And>mdl summary src task criteria scale.
      TaskGradeCall mdl summary src task criteria scale \<notin> set post"
  proof
    fix mdl summary src task criteria scale
    assume "TaskGradeCall mdl summary src task criteria scale \<in> set post"
    with report have "is_report_event (TaskGradeCall mdl summary src task criteria scale)"
      by blast
    then show False by simp
  qed
  have "fst (final_evaluator w pdf_path models task_prompt mt) = RubricCall task_prompt # (rest @ post)"
    using full head by simp
  moreover have "length (filter is_rubric_call
      (fst (final_evaluator w pdf_path models task_prompt mt))) = 1"
    using full once no_rubric by simp
  moreover have "\<And>mdl summary src task criteria scale.
           TaskGradeCall mdl summary src task criteria scale \<in> set (rest @ post) \<Longrightarrow>
             task = task_prompt \<and>
             snd (dynamic_grading_criteria w task_prompt []) = Inr (criteria, scale)"
    using calls no_task by (simp del: is_rubric_call.simps) blast
  ultimately show ?thesis
    by (intro exI [of _ "rest @ post"] conjI allI impI) blast+
qed

theorem rubric_generated_once_witness:
  "snd (dynamic_grading_criteria demo_world ''p'' []) = Inr (''Two sentences?'', ''5 - exactly two'')
   \<and> fst (final_evaluator demo_world ''a.pdf'' [''anthropic.claude-v2''] ''p'' ''4096'') =
     [RubricCall ''p'',
      InvokeCall Anthropic ''anthropic.claude-v2'' ''p'' ''doc'' ''4096'',
      TaskGradeCall ''anthropic.claude-v2'' ''sum'' ''doc'' ''p'' ''Two sentences?''
        ''5 - exactly two'',
      GradeCall Accuracy ''anthropic.claude-v2'' ''sum'' ''doc'',
      GradeCall Completeness ''anthropic.claude-v2'' ''sum'' ''doc'',
      GradeCall Flow ''anthropic.claude-v2'' ''sum'' ''doc'',
      GradeCall Structure ''anthropic.claude-v2'' ''sum'' ''doc'',
      GradeCall Conciseness ''anthropic.claude-v2'' ''sum'' ''doc'',
      GradeCall Clarity ''anthropic.claude-v2'' ''sum'' ''doc'',
      GradeCall Objectivity ''anthropic.claude-v2'' ''sum'' ''doc'',
      GradeCall Tone ''anthropic.claude-v2'' ''sum'' ''doc''] @
     drop 11 (fst (final_evaluator demo_world ''a.pdf'' [''anthropic.claude-v2''] ''p'' ''4096''))
   \<and> list_all is_report_event
       (drop 11 (fst (final_evaluator demo_world ''a.pdf'' [''anthropic.claude-v2''] ''p'' ''4096'')))"
proof -
  let ?full = "fst (final_evaluator demo_world ''a.pdf'' [''anthropic.claude-v2''] ''p'' ''4096'')"
  have "rows_of (final_evaluator_loop demo_world ''a.pdf'' [''anthropic.claude-v2''] ''p'' ''4096'') =
      Inr [''anthropic.claude-v2'']"
    by (simp add: demo_rows rows_for_def demo_models_families demo_models_skipped)
  from demo_final_trace [OF this] obtain df where
    full: "?full =
           fst (final_evaluator_loop demo_world ''a.pdf'' [''anthropic.claude-v2''] ''p'' ''4096'') @
           [WriteCall ''reports/model_performance_comparison.csv'', PerformanceCall df,
            WriteCall ''reports/graph.png'', WriteCall ''reports/rubric_graph.png'',
            WriteCall ''reports/summary-evaluation_results'',
            WriteCall ''reports/cost-evaluation_results'']"
    by auto
  from rubric_generated_once [of demo_world "''a.pdf''" "[''anthropic.claude-v2'']" "''p''" "''4096''"]
  obtain rest
    where head: "?full = RubricCall ''p'' # rest"
      and calls: "\<And>mdl summary src task criteria scale.
             TaskGradeCall mdl summary src task criteria scale \<in> set rest \<Longrightarrow>
               snd (dynamic_grading_criteria demo_world ''p'' []) = Inr (criteria, scale)"
    by blast
  from head have "TaskGradeCall ''anthropic.claude-v2'' ''sum'' ''doc'' ''p'' ''Two sentences?''
        ''5 - exactly two'' \<in> set rest"
    unfolding full demo_run_trace by auto
  from calls [OF this]
  have "snd (dynamic_grading_criteria demo_world ''p'' []) = Inr (''Two sentences?'', ''5 - exactly two'')" .
  moreover have "?full = take 11 ?full @ drop 11 ?full" by simp
  moreover have "take 11 ?full = fst (final_evaluator_loop demo_world ''a.pdf'' [''anthropic.claude-v2''] ''p'' ''4096'')"
    unfolding full demo_run_trace by simp
  moreover have "list_all is_report_event (drop 11 ?full)"
    unfolding full demo_run_trace by simp
  ultimately show ?thesis
    unfolding demo_run_trace by (intro conjI) simp_all
qed





theorem skipped_identifier_ignored_witness:
  "substr_in ''embed'' ''amazon.titan-embed-text-v1''
   \<and> final_evaluator demo_world ''a.pdf''
        [''anthropic.claude-v2'', ''amazon.titan-embed-text-v1'', ''meta.llama2-13b-chat-v1'']
        ''p'' ''4096'' =
       final_evaluator demo_world ''a.pdf'' [''anthropic.claude-v2'', ''meta.llama2-13b-chat-v1'']
        ''p'' ''4096''
   \<and> substr_in ''stability'' ''stability.stable-diffusion-xl-v1''
   \<and> final_evaluator demo_world ''a.pdf'' [''stability.stable-diffusion-xl-v1''] ''p'' ''4096'' =
       final_evaluator demo_world ''a.pdf'' [] ''p'' ''4096''
   \<and> returned_rows (final_evaluator demo_world ''a.pdf''
        [''anthropic.claude-v2'', ''amazon.titan-embed-text-v1'', ''meta.llama2-13b-chat-v1'']
        ''p'' ''4096'') = Inr [''anthropic.claude-v2'', ''meta.llama2-13b-chat-v1'']"
proof -
  have embed: "substr_in ''embed'' ''amazon.titan-embed-text-v1''"
    and stability: "substr_in ''stability'' ''stability.stable-diffusion-xl-v1''"
    by simp_all
  from embed have "substr_in ''embed'' ''amazon.titan-embed-text-v1'' \<or>
      substr_in ''stability'' ''amazon.titan-embed-text-v1''" ..
  from skipped_identifier_ignored [OF this, where w = demo_world and pdf_path = "''a.pdf''"
      and before = "[''anthropic.claude-v2'']" and after = "[''meta.llama2-13b-chat-v1'']"
      and task_prompt = "''p''" and mt = "''4096''"]
  have one: "final_evaluator demo_world ''a.pdf''
        [''anthropic.claude-v2'', ''amazon.titan-embed-text-v1'', ''meta.llama2-13b-chat-v1'']
        ''p'' ''4096'' =
       final_evaluator demo_world ''a.pdf'' [''anthropic.claude-v2'', ''meta.llama2-13b-chat-v1'']
        ''p'' ''4096''"
    by (simp only: append_Cons append_Nil)
  from stability have "substr_in ''embed'' ''stability.stable-diffusion-xl-v1'' \<or>
      substr_in ''stability'' ''stability.stable-diffusion-xl-v1''" ..
  from skipped_identifier_ignored [OF this, where w = demo_world and pdf_path = "''a.pdf''"
      and before = "[]" and after = "[]" and task_prompt = "''p''" and mt = "''4096''"]
  have two: "final_evaluator demo_world ''a.pdf'' [''stability.stable-diffusion-xl-v1''] ''p'' ''4096'' =
       final_evaluator demo_world ''a.pdf'' [] ''p'' ''4096''"
    by (simp only: append_Cons append_Nil)
  have "rows_of (final_evaluator_loop demo_world ''a.pdf''
        [''anthropic.claude-v2'', ''meta.llama2-13b-chat-v1''] ''p'' ''4096'') =
      Inr [''anthropic.claude-v2'', ''meta.llama2-13b-chat-v1'']"
    by (simp add: demo_rows rows_for_def demo_models_families demo_models_skipped)
  from demo_final_returns [OF this]
  have "returned_rows (final_evaluator demo_world ''a.pdf''
        [''anthropic.claude-v2'', ''meta.llama2-13b-chat-v1''] ''p'' ''4096'') =
      Inr [''anthropic.claude-v2'', ''meta.llama2-13b-chat-v1'']"
    by simp
  with one have three: "returned_rows (final_evaluator demo_world ''a.pdf''
        [''anthropic.claude-v2'', ''amazon.titan-embed-text-v1'', ''meta.llama2-13b-chat-v1'']
        ''p'' ''4096'') = Inr [''anthropic.claude-v2'', ''meta.llama2-13b-chat-v1'']"
    by (simp only:)
  from embed stability one two three show ?thesis by (intro conjI)
qed

end
